theory Spec2Isabelle
  imports Complex_Main
begin

section \<open>Numbers of the program\<close>

text \<open>
  Every number of the component (coordinates, distances, scales, timestamps) is a
  JavaScript \<^verbatim>\<open>number\<close>. The model keeps the values that decide the behaviour of
  the gesture code: the finite numbers, the two infinities and NaN, with the IEEE rules
  for them (anything with NaN is NaN, \<^verbatim>\<open>Infinity - Infinity\<close> and
  \<^verbatim>\<open>0 * Infinity\<close> and \<^verbatim>\<open>0 / 0\<close> are NaN, a non-zero number divided by zero is
  an infinity, every comparison with NaN is false). Two things are abstracted: finite
  results are exact reals (no rounding), and zero has no sign. The only divisors of the
  program are the literal \<^verbatim>\<open>2\<close> and a pinch distance, which is a result of
  \<^verbatim>\<open>Math.sqrt\<close> and therefore never the negative zero, so a zero divisor is read
  as \<^verbatim>\<open>+0\<close>.
\<close>

datatype number = Num real | PosInf | NegInf | NaN

definition signed_inf :: "real \<Rightarrow> number" where
  "signed_inf a = (if a = 0 then NaN else if 0 < a then PosInf else NegInf)"

instantiation number :: "{plus, minus, uminus, times, inverse, abs, ord}"
begin

fun plus_number :: "number \<Rightarrow> number \<Rightarrow> number" where
  "plus_number NaN b = NaN"
| "plus_number a NaN = NaN"
| "plus_number (Num a) (Num b) = Num (a + b)"
| "plus_number PosInf NegInf = NaN"
| "plus_number NegInf PosInf = NaN"
| "plus_number PosInf b = PosInf"
| "plus_number a PosInf = PosInf"
| "plus_number NegInf b = NegInf"
| "plus_number a NegInf = NegInf"

fun uminus_number :: "number \<Rightarrow> number" where
  "uminus_number (Num a) = Num (- a)"
| "uminus_number PosInf = NegInf"
| "uminus_number NegInf = PosInf"
| "uminus_number NaN = NaN"

definition minus_number :: "number \<Rightarrow> number \<Rightarrow> number" where
  "minus_number a b = a + (- b)"

fun times_number :: "number \<Rightarrow> number \<Rightarrow> number" where
  "times_number NaN b = NaN"
| "times_number a NaN = NaN"
| "times_number (Num a) (Num b) = Num (a * b)"
| "times_number (Num a) PosInf = signed_inf a"
| "times_number (Num a) NegInf = signed_inf (- a)"
| "times_number PosInf (Num b) = signed_inf b"
| "times_number NegInf (Num b) = signed_inf (- b)"
| "times_number PosInf PosInf = PosInf"
| "times_number PosInf NegInf = NegInf"
| "times_number NegInf PosInf = NegInf"
| "times_number NegInf NegInf = PosInf"

fun divide_number :: "number \<Rightarrow> number \<Rightarrow> number" where
  "divide_number NaN b = NaN"
| "divide_number a NaN = NaN"
| "divide_number (Num a) (Num b) = (if b = 0 then signed_inf a else Num (a / b))"
| "divide_number (Num a) PosInf = Num 0"
| "divide_number (Num a) NegInf = Num 0"
| "divide_number PosInf (Num b) = (if b < 0 then NegInf else PosInf)"
| "divide_number NegInf (Num b) = (if b < 0 then PosInf else NegInf)"
| "divide_number PosInf PosInf = NaN"
| "divide_number PosInf NegInf = NaN"
| "divide_number NegInf PosInf = NaN"
| "divide_number NegInf NegInf = NaN"

definition inverse_number :: "number \<Rightarrow> number" where
  "inverse_number a = divide (Num 1) a"

fun abs_number :: "number \<Rightarrow> number" where
  "abs_number (Num a) = Num \<bar>a\<bar>"
| "abs_number PosInf = PosInf"
| "abs_number NegInf = PosInf"
| "abs_number NaN = NaN"

fun less_number :: "number \<Rightarrow> number \<Rightarrow> bool" where
  "less_number NaN b = False"
| "less_number a NaN = False"
| "less_number (Num a) (Num b) = (a < b)"
| "less_number a NegInf = False"
| "less_number PosInf b = False"
| "less_number NegInf b = True"
| "less_number a PosInf = True"

fun less_eq_number :: "number \<Rightarrow> number \<Rightarrow> bool" where
  "less_eq_number NaN b = False"
| "less_eq_number a NaN = False"
| "less_eq_number (Num a) (Num b) = (a \<le> b)"
| "less_eq_number NegInf b = True"
| "less_eq_number a PosInf = True"
| "less_eq_number a NegInf = False"
| "less_eq_number PosInf b = False"

instance ..

end

text \<open>\<^verbatim>\<open>a === b\<close> and \<^verbatim>\<open>a !== b\<close> on numbers: NaN equals nothing, itself included.\<close>

definition strict_eq :: "number \<Rightarrow> number \<Rightarrow> bool" where
  "strict_eq a b = (a \<noteq> NaN \<and> b \<noteq> NaN \<and> a = b)"

definition strict_neq :: "number \<Rightarrow> number \<Rightarrow> bool" where
  "strict_neq a b = (\<not> strict_eq a b)"

text \<open>\<^verbatim>\<open>Math.min\<close>, \<^verbatim>\<open>Math.max\<close> (NaN if an argument is NaN), \<^verbatim>\<open>Math.abs\<close>
  (the class operation above), \<^verbatim>\<open>Math.sqrt\<close> and \<^verbatim>\<open>Math.pow(a, 2)\<close>.\<close>

fun Math_min :: "number \<Rightarrow> number \<Rightarrow> number" where
  "Math_min NaN b = NaN"
| "Math_min a NaN = NaN"
| "Math_min (Num a) (Num b) = Num (min a b)"
| "Math_min NegInf b = NegInf"
| "Math_min a NegInf = NegInf"
| "Math_min PosInf b = b"
| "Math_min a PosInf = a"

fun Math_max :: "number \<Rightarrow> number \<Rightarrow> number" where
  "Math_max NaN b = NaN"
| "Math_max a NaN = NaN"
| "Math_max (Num a) (Num b) = Num (max a b)"
| "Math_max PosInf b = PosInf"
| "Math_max a PosInf = PosInf"
| "Math_max NegInf b = b"
| "Math_max a NegInf = a"

fun Math_sqrt :: "number \<Rightarrow> number" where
  "Math_sqrt (Num a) = (if a < 0 then NaN else Num (sqrt a))"
| "Math_sqrt PosInf = PosInf"
| "Math_sqrt NegInf = NaN"
| "Math_sqrt NaN = NaN"

fun Math_pow2 :: "number \<Rightarrow> number" where
  "Math_pow2 (Num a) = Num (a * a)"
| "Math_pow2 PosInf = PosInf"
| "Math_pow2 NegInf = PosInf"
| "Math_pow2 NaN = NaN"

text \<open>The finite numbers: neither an infinity nor NaN.\<close>

fun isFinite :: "number \<Rightarrow> bool" where
  "isFinite (Num a) = True"
| "isFinite PosInf = False"
| "isFinite NegInf = False"
| "isFinite NaN = False"

section \<open>Data model\<close>

text \<open>
  \<^verbatim>\<open>Position\<close>, \<^verbatim>\<open>PinchInfo\<close> and the view port are the source's object types.
  \<^verbatim>\<open>ChildState\<close> is the source's tagged union with the shared field
  \<^verbatim>\<open>lastTouch\<close>: the tag and the fields that belong to it are the datatype
  \<open>ChildGesture\<close>, whose tag \<open>status\<close> reads off. An object spread
  \<^verbatim>\<open>{...this.childState, f: v}\<close> builds a new object, so it is a record update of
  a copy; the fields that the spread leaves behind under the tag \<^verbatim>\<open>OTHER\<close> are
  never read by the source and are dropped.
\<close>

record Position =
  pos_x :: number
  pos_y :: number

record PinchInfo =
  center :: Position
  distance :: number

record ViewPort =
  width :: number
  height :: number

datatype ChildStatus = SINGLE | DOUBLE | OTHER

datatype ChildGesture =
    Double PinchInfo PinchInfo number
  | Single Position Position number
  | Other

fun status :: "ChildGesture \<Rightarrow> ChildStatus" where
  "status (Double initial_pinch last_pinch timestamp) = DOUBLE"
| "status (Single initial_pos last_pos timestamp) = SINGLE"
| "status Other = OTHER"

record ChildState =
  gesture :: ChildGesture
  lastTouch :: number

text \<open>
  A touch event as the handlers read it: \<^verbatim>\<open>event.timeStamp\<close>,
  \<^verbatim>\<open>event.nativeEvent.pageX\<close>, \<^verbatim>\<open>pageY\<close> and \<^verbatim>\<open>touches\<close>.
\<close>

record Touch =
  touch_pageX :: number
  touch_pageY :: number

record GestureResponderEvent =
  timeStamp :: number
  pageX :: number
  pageY :: number
  touches :: "Touch list"

text \<open>
  The two closures that the source hands to \<^verbatim>\<open>doChildAnimation\<close>: the empty one
  (its default argument, and the one of the double touch) and the one of
  \<^verbatim>\<open>doChildReset\<close>, which clears \<^verbatim>\<open>childDoingZoom\<close>.
\<close>

datatype Callback = EmptyCallback | ResetCallback

text \<open>
  Calls into the platform are logged in the order the source makes them:
  \<^verbatim>\<open>flatList.scrollToIndex\<close>, the pair of \<^verbatim>\<open>stopAnimation\<close> calls of an
  overriding animation, and \<^verbatim>\<open>Animated.parallel(...).start(...)\<close> with its duration,
  the two target values and the closure run on completion.
\<close>

datatype Effect =
    ScrollToIndex int
  | StopAnimation
  | StartAnimation number number Position Callback

text \<open>
  The component: the part of the React state that the gesture code reads
  (\<^verbatim>\<open>state.data\<close>, \<^verbatim>\<open>state.currentIndex\<close>), the private fields of the class,
  and the log of platform calls. The animated values and the two refs live in the
  platform and appear only through that log.
\<close>

record 'a SwiperViewComponent =
  data :: "'a list"
  currentIndex :: int
  viewPort :: ViewPort
  absolutePosition :: Position
  scaleTarget :: number
  transformBase :: Position
  childState :: ChildState
  childDoingZoom :: bool
  doingChildAnimation :: bool
  effects :: "Effect list"

definition DOUBLE_TOUCH_THRES :: number where "DOUBLE_TOUCH_THRES = Num 300"
definition MAX_ZOOM :: number where "MAX_ZOOM = Num 5"
definition DEFAULT_ZOOM :: number where "DEFAULT_ZOOM = Num 2"
definition MIN_ZOOM :: number where "MIN_ZOOM = Num (1 / 2)"
definition MAX_ZOOM_RESET :: number where "MAX_ZOOM_RESET = Num (13 / 10)"
definition MIN_ZOOM_RESET :: number where "MIN_ZOOM_RESET = Num 0"
definition SOFT_ANIMIATION_TIME :: number where "SOFT_ANIMIATION_TIME = Num 300"

text \<open>The state that the constructor builds from the props.\<close>

definition constructor :: "number \<Rightarrow> number \<Rightarrow> 'a list \<Rightarrow> int \<Rightarrow> 'a SwiperViewComponent" where
  "constructor props_width props_height initialData initialScrollIndex =
     \<lparr> data = initialData,
       currentIndex = initialScrollIndex,
       viewPort = \<lparr> width = props_width, height = props_height \<rparr>,
       absolutePosition = \<lparr> pos_x = Num 0, pos_y = Num 0 \<rparr>,
       scaleTarget = Num 1,
       transformBase = \<lparr> pos_x = Num 0, pos_y = Num 0 \<rparr>,
       childState = \<lparr> gesture = Other, lastTouch = Num 0 \<rparr>,
       childDoingZoom = False,
       doingChildAnimation = False,
       effects = [] \<rparr>"

section \<open>Transform engine\<close>

definition positionMult :: "Position \<Rightarrow> number \<Rightarrow> Position" where
  "positionMult input v = \<lparr> pos_x = pos_x input * v, pos_y = pos_y input * v \<rparr>"

text \<open>
  \<^verbatim>\<open>doChildAnimation(timing, callback, override)\<close>. The early return, the two
  \<^verbatim>\<open>stopAnimation\<close> calls, the two flags, the clamp of the scale, the clamp of the
  translation against the bound computed from the clamped scale, and the start of the
  animation, in the order of the source.
\<close>

definition doChildAnimation ::
  "number \<Rightarrow> Callback \<Rightarrow> bool \<Rightarrow> 'a SwiperViewComponent \<Rightarrow> 'a SwiperViewComponent" where
  "doChildAnimation timing callback override s =
     (if doingChildAnimation s = True \<and> \<not> override then s
      else
        let s1 = (if override then s\<lparr>effects := effects s @ [StopAnimation]\<rparr> else s);
            s2 = s1\<lparr>doingChildAnimation := True, childDoingZoom := True\<rparr>;
            boundScaleTarget = Math_max (Math_min (scaleTarget s2) MAX_ZOOM) MIN_ZOOM;
            s3 = s2\<lparr>scaleTarget := boundScaleTarget\<rparr>;
            boundDisposition = positionMult (transformBase s3) (Num 1);
            maxX = (width (viewPort s3) * \<bar>Num 1 - boundScaleTarget\<bar>) / Num 2;
            maxY = (height (viewPort s3) * \<bar>Num 1 - boundScaleTarget\<bar>) / Num 2;
            boundDisposition1 =
              boundDisposition\<lparr>pos_x := Math_max (Math_min (pos_x boundDisposition) maxX) (- maxX)\<rparr>;
            boundDisposition2 =
              boundDisposition1\<lparr>pos_y := Math_max (Math_min (pos_y boundDisposition1) maxY) (- maxY)\<rparr>;
            s4 = s3\<lparr>transformBase := boundDisposition2\<rparr>
        in s4\<lparr>effects := effects s4 @
                 [StartAnimation timing (scaleTarget s4) (transformBase s4) callback]\<rparr>)"

text \<open>
  What the closures do when the platform runs them: the callback of the caller, and
  around it the closure that \<^verbatim>\<open>doChildAnimation\<close> passes to \<^verbatim>\<open>start\<close>,
  \<^verbatim>\<open>() => { callback(); this.doingChildAnimation = false }\<close>. The closure takes no
  argument and reads nothing but \<^verbatim>\<open>this\<close>.
\<close>

fun runCallback :: "Callback \<Rightarrow> 'a SwiperViewComponent \<Rightarrow> 'a SwiperViewComponent" where
  "runCallback EmptyCallback s = s"
| "runCallback ResetCallback s = s\<lparr>childDoingZoom := False\<rparr>"

definition animationEnd :: "Callback \<Rightarrow> 'a SwiperViewComponent \<Rightarrow> 'a SwiperViewComponent" where
  "animationEnd callback s = (runCallback callback s)\<lparr>doingChildAnimation := False\<rparr>"

definition doChildReset :: "number \<Rightarrow> 'a SwiperViewComponent \<Rightarrow> 'a SwiperViewComponent" where
  "doChildReset timing s =
     (let s1 = s\<lparr>scaleTarget := Num 1\<rparr>;
          s2 = s1\<lparr>transformBase := (transformBase s1)\<lparr>pos_x := Num 0\<rparr>\<rparr>;
          s3 = s2\<lparr>transformBase := (transformBase s2)\<lparr>pos_y := Num 0\<rparr>\<rparr>
      in doChildAnimation timing ResetCallback True s3)"

definition centerPosition :: "'a SwiperViewComponent \<Rightarrow> Position" where
  "centerPosition s =
     \<lparr> pos_x = width (viewPort s) / Num 2, pos_y = height (viewPort s) / Num 2 \<rparr>"

definition getCenterDisposition :: "Position \<Rightarrow> 'a SwiperViewComponent \<Rightarrow> Position" where
  "getCenterDisposition pos s =
     (let c = centerPosition s
      in \<lparr> pos_x = pos_x pos - pos_x c, pos_y = pos_y pos - pos_y c \<rparr>)"

text \<open>
  \<^verbatim>\<open>doChangeScale(updateDisposition, updateScale, updateCenter?)\<close>; the optional
  pivot is an \<open>option\<close>, \<open>None\<close> for \<^verbatim>\<open>undefined\<close>.
\<close>

definition doChangeScale ::
  "Position \<Rightarrow> number \<Rightarrow> Position option \<Rightarrow> 'a SwiperViewComponent \<Rightarrow> 'a SwiperViewComponent" where
  "doChangeScale updateDisposition updateScale updateCenter s =
     (let newScale = scaleTarget s * updateScale;
          origDisposition = transformBase s;
          centerToCenterDisposition =
            (case updateCenter of
               None \<Rightarrow> \<lparr> pos_x = Num 0, pos_y = Num 0 \<rparr>
             | Some c \<Rightarrow> \<lparr> pos_x = pos_x c - pos_x origDisposition,
                           pos_y = pos_y c - pos_y origDisposition \<rparr>);
          newDisposition = positionMult updateDisposition (Num 1);
          newCenterDisposition = positionMult centerToCenterDisposition (Num 1 - updateScale);
          disposition =
            \<lparr> pos_x = pos_x origDisposition + pos_x newDisposition + pos_x newCenterDisposition,
              pos_y = pos_y origDisposition + pos_y newDisposition + pos_y newCenterDisposition \<rparr>
      in s\<lparr>transformBase := disposition, scaleTarget := newScale\<rparr>)"

definition doChildDoubleTouch ::
  "Position \<Rightarrow> number \<Rightarrow> 'a SwiperViewComponent \<Rightarrow> 'a SwiperViewComponent" where
  "doChildDoubleTouch secondTouch timediff s =
     (if \<not> childDoingZoom s then
        let scale = DEFAULT_ZOOM;
            c = getCenterDisposition secondTouch s;
            s1 = doChangeScale \<lparr> pos_x = Num 0, pos_y = Num 0 \<rparr> scale (Some c) s
        in doChildAnimation SOFT_ANIMIATION_TIME EmptyCallback True s1
      else doChildReset SOFT_ANIMIATION_TIME s)"

definition doChildPinchMove ::
  "PinchInfo \<Rightarrow> PinchInfo \<Rightarrow> number \<Rightarrow> 'a SwiperViewComponent \<Rightarrow> 'a SwiperViewComponent" where
  "doChildPinchMove prev next timeDiff s =
     (let newDisposition =
            \<lparr> pos_x = pos_x (center next) - pos_x (center prev),
              pos_y = pos_y (center next) - pos_y (center prev) \<rparr>;
          updateScale = distance next / distance prev;
          s1 = doChangeScale newDisposition updateScale
                 (Some (getCenterDisposition (center prev) s)) s
      in doChildAnimation timeDiff EmptyCallback False s1)"

definition doChildMove ::
  "Position \<Rightarrow> Position \<Rightarrow> number \<Rightarrow> 'a SwiperViewComponent \<Rightarrow> 'a SwiperViewComponent" where
  "doChildMove prev next timeDiff s =
     (if childDoingZoom s \<and> strict_neq (scaleTarget s) (Num 1) then
        let newDisposition =
              \<lparr> pos_x = pos_x next - pos_x prev, pos_y = pos_y next - pos_y prev \<rparr>;
            updateScale = Num 1;
            s1 = doChangeScale newDisposition updateScale None s
        in doChildAnimation timeDiff EmptyCallback False s1
      else s)"

definition lastIndex :: "'a SwiperViewComponent \<Rightarrow> int" where
  "lastIndex s =
     (let maxLength = int (length (data s))
      in if maxLength > 0 then maxLength - 1 else maxLength)"

section \<open>Touch classifier\<close>

text \<open>
  \<^verbatim>\<open>doChildStateChange(to)\<close>. Every caller builds \<open>to\<close> by an object spread before
  the call, so \<open>to\<close> is an object of its own that holds the value of
  \<^verbatim>\<open>lastTouch\<close> copied at that moment. The assignment
  \<^verbatim>\<open>this.childState.lastTouch = 0\<close> writes the object that \<^verbatim>\<open>this.childState\<close>
  refers to when it runs, and the last statement, \<^verbatim>\<open>this.childState = to\<close>, replaces
  that object by \<open>to\<close>.
\<close>

definition doChildStateChange :: "ChildState \<Rightarrow> 'a SwiperViewComponent \<Rightarrow> 'a SwiperViewComponent" where
  "doChildStateChange to s =
     (let s3 =
        (if status (gesture (childState s)) \<noteq> status (gesture to) then
           let s1 = (if status (gesture to) \<noteq> SINGLE
                     then s\<lparr>childState := (childState s)\<lparr>lastTouch := Num 0\<rparr>\<rparr>
                     else s);
               s2 = (if status (gesture to) = DOUBLE
                     then s1\<lparr>childDoingZoom := True,
                             effects := effects s1 @ [ScrollToIndex (currentIndex s1)]\<rparr>
                     else s1)
           in s2
         else s)
      in s3\<lparr>childState := to\<rparr>)"

definition onStartTouchResponder ::
  "GestureResponderEvent \<Rightarrow> 'a SwiperViewComponent \<Rightarrow> 'a SwiperViewComponent" where
  "onStartTouchResponder event s =
     (let timediff = timeStamp event - lastTouch (childState s);
          newPos = \<lparr> pos_x = pageX event - pos_x (absolutePosition s),
                     pos_y = pageY event - pos_y (absolutePosition s) \<rparr>
      in if timediff < DOUBLE_TOUCH_THRES then
           let s1 = s\<lparr>childState := (childState s)\<lparr>lastTouch := Num 0\<rparr>\<rparr>
           in if status (gesture (childState s1)) \<noteq> SINGLE
              then doChildDoubleTouch newPos timediff s1
              else s1
         else
           let s1 = s\<lparr>childState := (childState s)\<lparr>lastTouch := timeStamp event\<rparr>\<rparr>
           in doChildStateChange
                ((childState s1)\<lparr>gesture := Single newPos newPos (timeStamp event)\<rparr>) s1)"

text \<open>
  \<^verbatim>\<open>onMoveTouchResponder\<close> switches on the number of touches: one, two, anything
  else. \<^verbatim>\<open>touches[0]\<close> and \<^verbatim>\<open>touches[1]\<close> are read only under the case of two
  touches. In the two branches that continue a gesture the spread is evaluated after
  the move was forwarded, and keeps \<^verbatim>\<open>initial\<close>.
\<close>

definition onMoveTouchResponder ::
  "GestureResponderEvent \<Rightarrow> 'a SwiperViewComponent \<Rightarrow> 'a SwiperViewComponent" where
  "onMoveTouchResponder event s =
     (if length (touches event) = 1 then
        let newPos = \<lparr> pos_x = pageX event - pos_x (absolutePosition s),
                       pos_y = pageY event - pos_y (absolutePosition s) \<rparr>
        in (case gesture (childState s) of
              Single initial_pos last_pos timestamp \<Rightarrow>
                let s1 = doChildMove last_pos newPos (timestamp - timeStamp event) s
                in doChildStateChange
                     ((childState s1)\<lparr>gesture := Single initial_pos newPos (timeStamp event)\<rparr>) s1
            | _ \<Rightarrow>
                doChildStateChange
                  ((childState s)\<lparr>gesture := Single newPos newPos (timeStamp event)\<rparr>) s)
      else if length (touches event) = 2 then
        let touchA = \<lparr> pos_x = touch_pageX (touches event ! 0) - pos_x (absolutePosition s),
                       pos_y = touch_pageY (touches event ! 0) - pos_y (absolutePosition s) \<rparr>;
            touchB = \<lparr> pos_x = touch_pageX (touches event ! 1) - pos_x (absolutePosition s),
                       pos_y = touch_pageY (touches event ! 1) - pos_y (absolutePosition s) \<rparr>;
            newPinch =
              \<lparr> center = \<lparr> pos_x = (pos_x touchA + pos_x touchB) / Num 2,
                            pos_y = (pos_y touchA + pos_y touchB) / Num 2 \<rparr>,
                distance = Math_sqrt (Math_pow2 (pos_x touchA - pos_x touchB) +
                                      Math_pow2 (pos_y touchA - pos_y touchB)) \<rparr>
        in (case gesture (childState s) of
              Double initial_pinch last_pinch timestamp \<Rightarrow>
                let s1 = doChildPinchMove last_pinch newPinch (timestamp - timeStamp event) s
                in doChildStateChange
                     ((childState s1)\<lparr>gesture := Double initial_pinch newPinch (timeStamp event)\<rparr>) s1
            | _ \<Rightarrow>
                doChildStateChange
                  ((childState s)\<lparr>gesture := Double newPinch newPinch (timeStamp event)\<rparr>) s)
      else
        doChildStateChange ((childState s)\<lparr>gesture := Other\<rparr>) s)"

subsection \<open>The gesture handlers\<close>

text \<open>
  A handler that returns a value returns it with the state it leaves behind; the other
  handlers return the state.
\<close>

definition onStartShouldSetResponder ::
  "GestureResponderEvent \<Rightarrow> 'a SwiperViewComponent \<Rightarrow> bool \<times> 'a SwiperViewComponent" where
  "onStartShouldSetResponder event s =
     (let ret = childDoingZoom s;
          s1 = (if ret = False \<and> length (touches event) = 1
                then onStartTouchResponder event s else s);
          s2 = doChildStateChange ((childState s1)\<lparr>gesture := Other\<rparr>) s1
      in (ret, s2))"

definition onMoveShouldSetResponder ::
  "GestureResponderEvent \<Rightarrow> 'a SwiperViewComponent \<Rightarrow> bool \<times> 'a SwiperViewComponent" where
  "onMoveShouldSetResponder event s =
     (let ret = (childDoingZoom s \<or> length (touches event) > 1) in (ret, s))"

definition onResponderTerminationRequest ::
  "GestureResponderEvent \<Rightarrow> 'a SwiperViewComponent \<Rightarrow> bool \<times> 'a SwiperViewComponent" where
  "onResponderTerminationRequest event s =
     (let ret = (childDoingZoom s \<or> length (touches event) > 1) in (\<not> ret, s))"

definition onStartShouldSetResponderCapture ::
  "GestureResponderEvent \<Rightarrow> 'a SwiperViewComponent \<Rightarrow> bool \<times> 'a SwiperViewComponent" where
  "onStartShouldSetResponderCapture event s =
     (let ret = (childDoingZoom s \<or> length (touches event) > 1) in (ret, s))"

definition onMoveShouldSetResponderCapture ::
  "GestureResponderEvent \<Rightarrow> 'a SwiperViewComponent \<Rightarrow> bool \<times> 'a SwiperViewComponent" where
  "onMoveShouldSetResponderCapture event s =
     (let ret = (childDoingZoom s \<or> length (touches event) > 1) in (ret, s))"

definition onResponderMove ::
  "GestureResponderEvent \<Rightarrow> 'a SwiperViewComponent \<Rightarrow> 'a SwiperViewComponent" where
  "onResponderMove event s = onMoveTouchResponder event s"

definition onResponderRelease ::
  "GestureResponderEvent \<Rightarrow> 'a SwiperViewComponent \<Rightarrow> 'a SwiperViewComponent" where
  "onResponderRelease event s =
     (let s1 = doChildStateChange ((childState s)\<lparr>gesture := Other\<rparr>) s
      in if scaleTarget s1 > MIN_ZOOM_RESET \<and> scaleTarget s1 < MAX_ZOOM_RESET
         then doChildReset SOFT_ANIMIATION_TIME s1
         else s1)"

definition onResponderReject ::
  "GestureResponderEvent \<Rightarrow> 'a SwiperViewComponent \<Rightarrow> 'a SwiperViewComponent" where
  "onResponderReject event s = doChildStateChange ((childState s)\<lparr>gesture := Other\<rparr>) s"

definition onResponderTerminate ::
  "GestureResponderEvent \<Rightarrow> 'a SwiperViewComponent \<Rightarrow> 'a SwiperViewComponent" where
  "onResponderTerminate event s = doChildStateChange ((childState s)\<lparr>gesture := Other\<rparr>) s"

definition onResponderStart ::
  "GestureResponderEvent \<Rightarrow> 'a SwiperViewComponent \<Rightarrow> 'a SwiperViewComponent" where
  "onResponderStart event s =
     (if length (touches event) = 1
      then onStartTouchResponder event s
      else onMoveTouchResponder event s)"

section \<open>The rendered transform\<close>


section \<open>The platform's side of an animation\<close>

text \<open>
  \<^verbatim>\<open>Animated\<close> is not part of the repository. What the component relies on is this:
  an animation started with \<^verbatim>\<open>Animated.parallel(...).start(closure)\<close> is in flight
  until it ends, and the platform runs its closure once, when the animation ends by
  itself or when \<^verbatim>\<open>stopAnimation()\<close> is called on its values, in the second case
  before \<^verbatim>\<open>stopAnimation()\<close> returns. \<^verbatim>\<open>doChildAnimation\<close> sets
  \<^verbatim>\<open>doingChildAnimation\<close> when it starts an animation and nothing but a closure
  clears it, so while the flag is set the animation started last is the one in flight,
  and its callback is the last one in the log.
\<close>

fun lastStarted :: "Effect list \<Rightarrow> Callback option" where
  "lastStarted [] = None"
| "lastStarted (e # es) =
     (case lastStarted es of
        Some callback \<Rightarrow> Some callback
      | None \<Rightarrow> (case e of StartAnimation timing sc tb callback \<Rightarrow> Some callback | _ \<Rightarrow> None))"

definition inFlight :: "'a SwiperViewComponent \<Rightarrow> Callback option" where
  "inFlight s = (if doingChildAnimation s then lastStarted (effects s) else None)"



section \<open>Example inputs\<close>

text \<open>
  Events and runs of the handlers that the theorems below evaluate. A view port of 300
  by 300 at the origin of the screen showing two images; an event with one touch, with
  two touches, and with none (the event of a lifted finger).
\<close>

definition tap :: "real \<Rightarrow> real \<Rightarrow> real \<Rightarrow> GestureResponderEvent" where
  "tap t px py =
     \<lparr> timeStamp = Num t, pageX = Num px, pageY = Num py,
       touches = [\<lparr> touch_pageX = Num px, touch_pageY = Num py \<rparr>] \<rparr>"

definition two_fingers :: "real \<Rightarrow> real \<Rightarrow> real \<Rightarrow> real \<Rightarrow> real \<Rightarrow> GestureResponderEvent" where
  "two_fingers t ax ay bx by =
     \<lparr> timeStamp = Num t, pageX = Num ax, pageY = Num ay,
       touches = [\<lparr> touch_pageX = Num ax, touch_pageY = Num ay \<rparr>,
                  \<lparr> touch_pageX = Num bx, touch_pageY = Num by \<rparr>] \<rparr>"

definition lifted :: "real \<Rightarrow> real \<Rightarrow> real \<Rightarrow> GestureResponderEvent" where
  "lifted t px py = \<lparr> timeStamp = Num t, pageX = Num px, pageY = Num py, touches = [] \<rparr>"

definition gallery :: "nat SwiperViewComponent" where
  "gallery = constructor (Num 300) (Num 300) [1, 2] 0"

text \<open>
  A pinch that opens from distance 20 to distance 24 around the centre and starts an
  animation; the animation completes; the fingers are lifted at scale 1.2, which starts
  the reset.
\<close>

definition pinch_started :: "nat SwiperViewComponent" where
  "pinch_started = onResponderStart (two_fingers 1000 140 150 160 150) gallery"

definition pinch_moved :: "nat SwiperViewComponent" where
  "pinch_moved = onResponderMove (two_fingers 1016 138 150 162 150) pinch_started"

definition pinch_settled :: "nat SwiperViewComponent" where
  "pinch_settled = animationEnd EmptyCallback pinch_moved"

definition reset_running :: "nat SwiperViewComponent" where
  "reset_running = onResponderRelease (lifted 1030 138 150) pinch_settled"

text \<open>
  While the reset animation runs, a second pinch opens from distance 20 to distance
  200; then the reset animation completes, the fingers are lifted, and the image is
  tapped twice within 100 ms, 50 to the right of the centre.
\<close>

definition second_pinch_started :: "nat SwiperViewComponent" where
  "second_pinch_started = onResponderStart (two_fingers 1100 140 150 160 150) reset_running"

definition second_pinch_moved :: "nat SwiperViewComponent" where
  "second_pinch_moved = onResponderMove (two_fingers 1116 50 150 250 150) second_pinch_started"

definition reset_completed :: "nat SwiperViewComponent" where
  "reset_completed = animationEnd ResetCallback second_pinch_moved"

definition second_pinch_released :: "nat SwiperViewComponent" where
  "second_pinch_released = onResponderRelease (lifted 1400 50 150) reset_completed"

definition first_tap :: "nat SwiperViewComponent" where
  "first_tap = snd (onStartShouldSetResponder (tap 2000 200 150) second_pinch_released)"

definition second_tap :: "nat SwiperViewComponent" where
  "second_tap = snd (onStartShouldSetResponder (tap 2100 200 150) first_tap)"

text \<open>
  The fingers of the first pinch are lifted while its animation still runs, so that the
  reset overrides it; the image is touched and released again while the reset runs,
  which starts a second reset over the first.
\<close>

definition reset_over_pinch :: "nat SwiperViewComponent" where
  "reset_over_pinch = onResponderRelease (lifted 1020 138 150) pinch_moved"

definition touched_during_reset :: "nat SwiperViewComponent" where
  "touched_during_reset = onResponderStart (tap 1100 200 150) reset_over_pinch"

definition second_reset :: "nat SwiperViewComponent" where
  "second_reset = onResponderRelease (lifted 1150 200 150) touched_during_reset"


text \<open>
  Two fingers that come down on the same point, a pinch of distance zero, and then
  move apart to distance 100.
\<close>

definition coincident_started :: "nat SwiperViewComponent" where
  "coincident_started = onResponderStart (two_fingers 1000 150 150 150 150) gallery"

definition coincident_moved :: "nat SwiperViewComponent" where
  "coincident_moved = onResponderMove (two_fingers 1016 100 150 200 150) coincident_started"

text \<open>The freshly built gallery is tapped twice within 100 ms, 50 to the right of the centre.\<close>

definition tapped_once :: "nat SwiperViewComponent" where
  "tapped_once = snd (onStartShouldSetResponder (tap 2000 200 150) gallery)"

definition tapped_twice :: "nat SwiperViewComponent" where
  "tapped_twice = snd (onStartShouldSetResponder (tap 2100 200 150) tapped_once)"

section \<open>Facts about the numbers\<close>


lemma minus_Num [simp]: "Num a - Num b = Num (a - b)"
  by (simp add: minus_number_def)

lemma times_Num_1 [simp]: "a * Num 1 = a"
  by (cases a) (simp_all add: signed_inf_def)

lemma plus_Num_0 [simp]: "a + Num 0 = a"
  by (cases a) simp_all

lemma positionMult_1 [simp]: "positionMult p (Num 1) = p"
  by (simp add: positionMult_def)

section \<open>The scale change and its pivot\<close>






section \<open>The last index of the data\<close>

text \<open>
  C10. \<^verbatim>\<open>lastIndex()\<close> returns \<^verbatim>\<open>data.length - 1\<close> when the data array is not
  empty and 0 when it is empty; the index it returns is never negative.
\<close>

theorem lastIndex_value:
  "(data s \<noteq> [] \<longrightarrow> lastIndex s = int (length (data s)) - 1) \<and>
   (data s = [] \<longrightarrow> lastIndex s = 0) \<and>
   0 \<le> lastIndex s"
  by (auto simp: lastIndex_def Let_def)

theorem lastIndex_value_witness:
  "data ((constructor (Num 300) (Num 300) [7, 8, 9 :: nat] 0)) \<noteq> [] \<and>
   lastIndex (constructor (Num 300) (Num 300) [7, 8, 9 :: nat] 0) = 2 \<and>
   data ((constructor (Num 300) (Num 300) ([] :: nat list) 0)) = [] \<and>
   lastIndex (constructor (Num 300) (Num 300) ([] :: nat list) 0) = 0"
  using lastIndex_value [of "constructor (Num 300) (Num 300) [7, 8, 9 :: nat] 0"]
    lastIndex_value [of "constructor (Num 300) (Num 300) ([] :: nat list) 0"]
  by (simp add: constructor_def)

section \<open>The example runs, evaluated\<close>

lemma sqrt_400 [simp]: "sqrt 400 = 20"
  using real_sqrt_abs2[of 20] by simp

lemma sqrt_576 [simp]: "sqrt 576 = 24"
  using real_sqrt_abs2[of 24] by simp

lemma sqrt_40000 [simp]: "sqrt 40000 = 200"
  using real_sqrt_abs2[of 200] by simp

lemma sqrt_10000 [simp]: "sqrt 10000 = 100"
  using real_sqrt_abs2[of 100] by simp

lemmas run_defs = onResponderStart_def onResponderMove_def onResponderRelease_def
  onResponderTerminate_def onResponderReject_def
  onStartShouldSetResponder_def onStartTouchResponder_def onMoveTouchResponder_def
  doChildStateChange_def doChildPinchMove_def doChildMove_def doChildDoubleTouch_def
  doChildReset_def doChildAnimation_def doChangeScale_def getCenterDisposition_def
  centerPosition_def positionMult_def animationEnd_def
  MAX_ZOOM_def MIN_ZOOM_def DEFAULT_ZOOM_def MAX_ZOOM_RESET_def MIN_ZOOM_RESET_def
  SOFT_ANIMIATION_TIME_def DOUBLE_TOUCH_THRES_def
  tap_def two_fingers_def lifted_def Let_def

lemma gallery_value:
  "gallery =
    \<lparr>data = [Suc 0, 2], currentIndex = 0,
       viewPort = \<lparr>width = Num 300, height = Num 300\<rparr>,
       absolutePosition = \<lparr>pos_x = Num 0, pos_y = Num 0\<rparr>, scaleTarget = Num 1,
       transformBase = \<lparr>pos_x = Num 0, pos_y = Num 0\<rparr>,
       childState = \<lparr>gesture = Other, lastTouch = Num 0\<rparr>,
       childDoingZoom = False, doingChildAnimation = False, effects = []\<rparr>"
  by (simp add: gallery_def constructor_def)

lemma pinch_started_value:
  "pinch_started =
    \<lparr>data = [Suc 0, 2], currentIndex = 0,
       viewPort = \<lparr>width = Num 300, height = Num 300\<rparr>,
       absolutePosition = \<lparr>pos_x = Num 0, pos_y = Num 0\<rparr>, scaleTarget = Num 1,
       transformBase = \<lparr>pos_x = Num 0, pos_y = Num 0\<rparr>,
       childState =
         \<lparr>gesture =
            Double
             \<lparr>center = \<lparr>pos_x = Num 150, pos_y = Num 150\<rparr>, distance = Num 20\<rparr>
             \<lparr>center = \<lparr>pos_x = Num 150, pos_y = Num 150\<rparr>, distance = Num 20\<rparr>
             (Num 1000),
            lastTouch = Num 0\<rparr>,
       childDoingZoom = True, doingChildAnimation = False,
       effects = [ScrollToIndex 0]\<rparr>"
  unfolding pinch_started_def gallery_value by (simp add: run_defs)

lemma pinch_moved_value:
  "pinch_moved =
    \<lparr>data = [Suc 0, 2], currentIndex = 0,
       viewPort = \<lparr>width = Num 300, height = Num 300\<rparr>,
       absolutePosition = \<lparr>pos_x = Num 0, pos_y = Num 0\<rparr>,
       scaleTarget = Num (6 / 5),
       transformBase = \<lparr>pos_x = Num 0, pos_y = Num 0\<rparr>,
       childState =
         \<lparr>gesture =
            Double
             \<lparr>center = \<lparr>pos_x = Num 150, pos_y = Num 150\<rparr>, distance = Num 20\<rparr>
             \<lparr>center = \<lparr>pos_x = Num 150, pos_y = Num 150\<rparr>, distance = Num 24\<rparr>
             (Num 1016),
            lastTouch = Num 0\<rparr>,
       childDoingZoom = True, doingChildAnimation = True,
       effects =
         [ScrollToIndex 0,
          StartAnimation (Num (- 16)) (Num (6 / 5))
           \<lparr>pos_x = Num 0, pos_y = Num 0\<rparr> EmptyCallback]\<rparr>"
  unfolding pinch_moved_def pinch_started_value by (simp add: run_defs)

lemma pinch_settled_value:
  "pinch_settled =
    \<lparr>data = [Suc 0, 2], currentIndex = 0,
       viewPort = \<lparr>width = Num 300, height = Num 300\<rparr>,
       absolutePosition = \<lparr>pos_x = Num 0, pos_y = Num 0\<rparr>,
       scaleTarget = Num (6 / 5),
       transformBase = \<lparr>pos_x = Num 0, pos_y = Num 0\<rparr>,
       childState =
         \<lparr>gesture =
            Double
             \<lparr>center = \<lparr>pos_x = Num 150, pos_y = Num 150\<rparr>, distance = Num 20\<rparr>
             \<lparr>center = \<lparr>pos_x = Num 150, pos_y = Num 150\<rparr>, distance = Num 24\<rparr>
             (Num 1016),
            lastTouch = Num 0\<rparr>,
       childDoingZoom = True, doingChildAnimation = False,
       effects =
         [ScrollToIndex 0,
          StartAnimation (Num (- 16)) (Num (6 / 5))
           \<lparr>pos_x = Num 0, pos_y = Num 0\<rparr> EmptyCallback]\<rparr>"
  unfolding pinch_settled_def pinch_moved_value by (simp add: run_defs)

lemma reset_running_value:
  "reset_running =
    \<lparr>data = [Suc 0, 2], currentIndex = 0,
       viewPort = \<lparr>width = Num 300, height = Num 300\<rparr>,
       absolutePosition = \<lparr>pos_x = Num 0, pos_y = Num 0\<rparr>, scaleTarget = Num 1,
       transformBase = \<lparr>pos_x = Num 0, pos_y = Num 0\<rparr>,
       childState = \<lparr>gesture = Other, lastTouch = Num 0\<rparr>,
       childDoingZoom = True, doingChildAnimation = True,
       effects =
         [ScrollToIndex 0,
          StartAnimation (Num (- 16)) (Num (6 / 5))
           \<lparr>pos_x = Num 0, pos_y = Num 0\<rparr> EmptyCallback,
          StopAnimation,
          StartAnimation (Num 300) (Num 1) \<lparr>pos_x = Num 0, pos_y = Num 0\<rparr>
           ResetCallback]\<rparr>"
  unfolding reset_running_def pinch_settled_value by (simp add: run_defs)

lemma second_pinch_started_value:
  "second_pinch_started =
    \<lparr>data = [Suc 0, 2], currentIndex = 0,
       viewPort = \<lparr>width = Num 300, height = Num 300\<rparr>,
       absolutePosition = \<lparr>pos_x = Num 0, pos_y = Num 0\<rparr>, scaleTarget = Num 1,
       transformBase = \<lparr>pos_x = Num 0, pos_y = Num 0\<rparr>,
       childState =
         \<lparr>gesture =
            Double
             \<lparr>center = \<lparr>pos_x = Num 150, pos_y = Num 150\<rparr>, distance = Num 20\<rparr>
             \<lparr>center = \<lparr>pos_x = Num 150, pos_y = Num 150\<rparr>, distance = Num 20\<rparr>
             (Num 1100),
            lastTouch = Num 0\<rparr>,
       childDoingZoom = True, doingChildAnimation = True,
       effects =
         [ScrollToIndex 0,
          StartAnimation (Num (- 16)) (Num (6 / 5))
           \<lparr>pos_x = Num 0, pos_y = Num 0\<rparr> EmptyCallback,
          StopAnimation,
          StartAnimation (Num 300) (Num 1) \<lparr>pos_x = Num 0, pos_y = Num 0\<rparr>
           ResetCallback,
          ScrollToIndex 0]\<rparr>"
  unfolding second_pinch_started_def reset_running_value by (simp add: run_defs)

lemma second_pinch_moved_value:
  "second_pinch_moved =
    \<lparr>data = [Suc 0, 2], currentIndex = 0,
       viewPort = \<lparr>width = Num 300, height = Num 300\<rparr>,
       absolutePosition = \<lparr>pos_x = Num 0, pos_y = Num 0\<rparr>,
       scaleTarget = Num 10, transformBase = \<lparr>pos_x = Num 0, pos_y = Num 0\<rparr>,
       childState =
         \<lparr>gesture =
            Double
             \<lparr>center = \<lparr>pos_x = Num 150, pos_y = Num 150\<rparr>, distance = Num 20\<rparr>
             \<lparr>center = \<lparr>pos_x = Num 150, pos_y = Num 150\<rparr>, distance = Num 200\<rparr>
             (Num 1116),
            lastTouch = Num 0\<rparr>,
       childDoingZoom = True, doingChildAnimation = True,
       effects =
         [ScrollToIndex 0,
          StartAnimation (Num (- 16)) (Num (6 / 5))
           \<lparr>pos_x = Num 0, pos_y = Num 0\<rparr> EmptyCallback,
          StopAnimation,
          StartAnimation (Num 300) (Num 1) \<lparr>pos_x = Num 0, pos_y = Num 0\<rparr>
           ResetCallback,
          ScrollToIndex 0]\<rparr>"
  unfolding second_pinch_moved_def second_pinch_started_value by (simp add: run_defs)

lemma reset_completed_value:
  "reset_completed =
    \<lparr>data = [Suc 0, 2], currentIndex = 0,
       viewPort = \<lparr>width = Num 300, height = Num 300\<rparr>,
       absolutePosition = \<lparr>pos_x = Num 0, pos_y = Num 0\<rparr>,
       scaleTarget = Num 10, transformBase = \<lparr>pos_x = Num 0, pos_y = Num 0\<rparr>,
       childState =
         \<lparr>gesture =
            Double
             \<lparr>center = \<lparr>pos_x = Num 150, pos_y = Num 150\<rparr>, distance = Num 20\<rparr>
             \<lparr>center = \<lparr>pos_x = Num 150, pos_y = Num 150\<rparr>, distance = Num 200\<rparr>
             (Num 1116),
            lastTouch = Num 0\<rparr>,
       childDoingZoom = False, doingChildAnimation = False,
       effects =
         [ScrollToIndex 0,
          StartAnimation (Num (- 16)) (Num (6 / 5))
           \<lparr>pos_x = Num 0, pos_y = Num 0\<rparr> EmptyCallback,
          StopAnimation,
          StartAnimation (Num 300) (Num 1) \<lparr>pos_x = Num 0, pos_y = Num 0\<rparr>
           ResetCallback,
          ScrollToIndex 0]\<rparr>"
  unfolding reset_completed_def second_pinch_moved_value by (simp add: run_defs)

lemma second_pinch_released_value:
  "second_pinch_released =
    \<lparr>data = [Suc 0, 2], currentIndex = 0,
       viewPort = \<lparr>width = Num 300, height = Num 300\<rparr>,
       absolutePosition = \<lparr>pos_x = Num 0, pos_y = Num 0\<rparr>,
       scaleTarget = Num 10, transformBase = \<lparr>pos_x = Num 0, pos_y = Num 0\<rparr>,
       childState = \<lparr>gesture = Other, lastTouch = Num 0\<rparr>,
       childDoingZoom = False, doingChildAnimation = False,
       effects =
         [ScrollToIndex 0,
          StartAnimation (Num (- 16)) (Num (6 / 5))
           \<lparr>pos_x = Num 0, pos_y = Num 0\<rparr> EmptyCallback,
          StopAnimation,
          StartAnimation (Num 300) (Num 1) \<lparr>pos_x = Num 0, pos_y = Num 0\<rparr>
           ResetCallback,
          ScrollToIndex 0]\<rparr>"
  unfolding second_pinch_released_def reset_completed_value by (simp add: run_defs)

lemma first_tap_value:
  "first_tap =
    \<lparr>data = [Suc 0, 2], currentIndex = 0,
       viewPort = \<lparr>width = Num 300, height = Num 300\<rparr>,
       absolutePosition = \<lparr>pos_x = Num 0, pos_y = Num 0\<rparr>,
       scaleTarget = Num 10, transformBase = \<lparr>pos_x = Num 0, pos_y = Num 0\<rparr>,
       childState = \<lparr>gesture = Other, lastTouch = Num 2000\<rparr>,
       childDoingZoom = False, doingChildAnimation = False,
       effects =
         [ScrollToIndex 0,
          StartAnimation (Num (- 16)) (Num (6 / 5))
           \<lparr>pos_x = Num 0, pos_y = Num 0\<rparr> EmptyCallback,
          StopAnimation,
          StartAnimation (Num 300) (Num 1) \<lparr>pos_x = Num 0, pos_y = Num 0\<rparr>
           ResetCallback,
          ScrollToIndex 0]\<rparr>"
  unfolding first_tap_def second_pinch_released_value by (simp add: run_defs)

lemma second_tap_value:
  "second_tap =
    \<lparr>data = [Suc 0, 2], currentIndex = 0,
       viewPort = \<lparr>width = Num 300, height = Num 300\<rparr>,
       absolutePosition = \<lparr>pos_x = Num 0, pos_y = Num 0\<rparr>, scaleTarget = Num 5,
       transformBase = \<lparr>pos_x = Num (- 50), pos_y = Num 0\<rparr>,
       childState = \<lparr>gesture = Other, lastTouch = Num 0\<rparr>,
       childDoingZoom = True, doingChildAnimation = True,
       effects =
         [ScrollToIndex 0,
          StartAnimation (Num (- 16)) (Num (6 / 5))
           \<lparr>pos_x = Num 0, pos_y = Num 0\<rparr> EmptyCallback,
          StopAnimation,
          StartAnimation (Num 300) (Num 1) \<lparr>pos_x = Num 0, pos_y = Num 0\<rparr>
           ResetCallback,
          ScrollToIndex 0, StopAnimation,
          StartAnimation (Num 300) (Num 5) \<lparr>pos_x = Num (- 50), pos_y = Num 0\<rparr>
           EmptyCallback]\<rparr>"
  unfolding second_tap_def first_tap_value by (simp add: run_defs)

lemma reset_over_pinch_value:
  "reset_over_pinch =
    \<lparr>data = [Suc 0, 2], currentIndex = 0,
       viewPort = \<lparr>width = Num 300, height = Num 300\<rparr>,
       absolutePosition = \<lparr>pos_x = Num 0, pos_y = Num 0\<rparr>, scaleTarget = Num 1,
       transformBase = \<lparr>pos_x = Num 0, pos_y = Num 0\<rparr>,
       childState = \<lparr>gesture = Other, lastTouch = Num 0\<rparr>,
       childDoingZoom = True, doingChildAnimation = True,
       effects =
         [ScrollToIndex 0,
          StartAnimation (Num (- 16)) (Num (6 / 5))
           \<lparr>pos_x = Num 0, pos_y = Num 0\<rparr> EmptyCallback,
          StopAnimation,
          StartAnimation (Num 300) (Num 1) \<lparr>pos_x = Num 0, pos_y = Num 0\<rparr>
           ResetCallback]\<rparr>"
  unfolding reset_over_pinch_def pinch_moved_value by (simp add: run_defs)

lemma touched_during_reset_value:
  "touched_during_reset =
    \<lparr>data = [Suc 0, 2], currentIndex = 0,
       viewPort = \<lparr>width = Num 300, height = Num 300\<rparr>,
       absolutePosition = \<lparr>pos_x = Num 0, pos_y = Num 0\<rparr>, scaleTarget = Num 1,
       transformBase = \<lparr>pos_x = Num 0, pos_y = Num 0\<rparr>,
       childState =
         \<lparr>gesture =
            Single \<lparr>pos_x = Num 200, pos_y = Num 150\<rparr>
             \<lparr>pos_x = Num 200, pos_y = Num 150\<rparr> (Num 1100),
            lastTouch = Num 1100\<rparr>,
       childDoingZoom = True, doingChildAnimation = True,
       effects =
         [ScrollToIndex 0,
          StartAnimation (Num (- 16)) (Num (6 / 5))
           \<lparr>pos_x = Num 0, pos_y = Num 0\<rparr> EmptyCallback,
          StopAnimation,
          StartAnimation (Num 300) (Num 1) \<lparr>pos_x = Num 0, pos_y = Num 0\<rparr>
           ResetCallback]\<rparr>"
  unfolding touched_during_reset_def reset_over_pinch_value by (simp add: run_defs)

lemma second_reset_value:
  "second_reset =
    \<lparr>data = [Suc 0, 2], currentIndex = 0,
       viewPort = \<lparr>width = Num 300, height = Num 300\<rparr>,
       absolutePosition = \<lparr>pos_x = Num 0, pos_y = Num 0\<rparr>, scaleTarget = Num 1,
       transformBase = \<lparr>pos_x = Num 0, pos_y = Num 0\<rparr>,
       childState = \<lparr>gesture = Other, lastTouch = Num 1100\<rparr>,
       childDoingZoom = True, doingChildAnimation = True,
       effects =
         [ScrollToIndex 0,
          StartAnimation (Num (- 16)) (Num (6 / 5))
           \<lparr>pos_x = Num 0, pos_y = Num 0\<rparr> EmptyCallback,
          StopAnimation,
          StartAnimation (Num 300) (Num 1) \<lparr>pos_x = Num 0, pos_y = Num 0\<rparr>
           ResetCallback,
          StopAnimation,
          StartAnimation (Num 300) (Num 1) \<lparr>pos_x = Num 0, pos_y = Num 0\<rparr>
           ResetCallback]\<rparr>"
  unfolding second_reset_def touched_during_reset_value by (simp add: run_defs)

lemma coincident_started_value:
  "coincident_started =
    \<lparr>data = [Suc 0, 2], currentIndex = 0,
       viewPort = \<lparr>width = Num 300, height = Num 300\<rparr>,
       absolutePosition = \<lparr>pos_x = Num 0, pos_y = Num 0\<rparr>, scaleTarget = Num 1,
       transformBase = \<lparr>pos_x = Num 0, pos_y = Num 0\<rparr>,
       childState =
         \<lparr>gesture =
            Double
             \<lparr>center = \<lparr>pos_x = Num 150, pos_y = Num 150\<rparr>, distance = Num 0\<rparr>
             \<lparr>center = \<lparr>pos_x = Num 150, pos_y = Num 150\<rparr>, distance = Num 0\<rparr>
             (Num 1000),
            lastTouch = Num 0\<rparr>,
       childDoingZoom = True, doingChildAnimation = False,
       effects = [ScrollToIndex 0]\<rparr>"
  unfolding coincident_started_def gallery_value by (simp add: run_defs)

lemma coincident_moved_value:
  "coincident_moved =
    \<lparr>data = [Suc 0, 2], currentIndex = 0,
       viewPort = \<lparr>width = Num 300, height = Num 300\<rparr>,
       absolutePosition = \<lparr>pos_x = Num 0, pos_y = Num 0\<rparr>, scaleTarget = Num 5,
       transformBase = \<lparr>pos_x = NaN, pos_y = NaN\<rparr>,
       childState =
         \<lparr>gesture =
            Double
             \<lparr>center = \<lparr>pos_x = Num 150, pos_y = Num 150\<rparr>, distance = Num 0\<rparr>
             \<lparr>center = \<lparr>pos_x = Num 150, pos_y = Num 150\<rparr>, distance = Num 100\<rparr>
             (Num 1016),
            lastTouch = Num 0\<rparr>,
       childDoingZoom = True, doingChildAnimation = True,
       effects =
         [ScrollToIndex 0,
          StartAnimation (Num (- 16)) (Num 5) \<lparr>pos_x = NaN, pos_y = NaN\<rparr> EmptyCallback]\<rparr>"
  unfolding coincident_moved_def coincident_started_value
  by (simp add: run_defs signed_inf_def minus_number_def)

section \<open>The single-finger move\<close>

lemma doChangeScale_pan:
  "doChangeScale d (Num 1) None s =
     s\<lparr>transformBase := \<lparr> pos_x = pos_x (transformBase s) + pos_x d,
                          pos_y = pos_y (transformBase s) + pos_y d \<rparr>\<rparr>"
  by (simp add: doChangeScale_def Let_def positionMult_def)

text \<open>
  C5. \<^verbatim>\<open>doChildMove(prev, next, timeDiff)\<close> changes nothing (the target scale, the
  target translation and the log of started animations included) unless zoom is in
  progress and the target scale is not 1. When both hold it is the scale change with
  translation delta \<open>next - prev\<close>, ratio 1 and no pivot, which leaves the scale as it is
  and adds the delta to the translation, followed by the animate step over
  \<open>timeDiff\<close> with the empty callback and without override: an animation of that
  duration towards the clamped target is started, unless one is running already.
\<close>

theorem doChildMove_guard:
  "(\<not> (childDoingZoom s \<and> strict_neq (scaleTarget s) (Num 1)) \<longrightarrow>
      doChildMove prev nxt timeDiff s = s \<and>
      scaleTarget (doChildMove prev nxt timeDiff s) = scaleTarget s \<and>
      transformBase (doChildMove prev nxt timeDiff s) = transformBase s \<and>
      effects (doChildMove prev nxt timeDiff s) = effects s) \<and>
   (childDoingZoom s \<and> strict_neq (scaleTarget s) (Num 1) \<longrightarrow>
      doChildMove prev nxt timeDiff s =
        doChildAnimation timeDiff EmptyCallback False
          (doChangeScale \<lparr> pos_x = pos_x nxt - pos_x prev, pos_y = pos_y nxt - pos_y prev \<rparr>
             (Num 1) None s) \<and>
      doChangeScale \<lparr> pos_x = pos_x nxt - pos_x prev, pos_y = pos_y nxt - pos_y prev \<rparr>
          (Num 1) None s =
        s\<lparr>transformBase :=
             \<lparr> pos_x = pos_x (transformBase s) + (pos_x nxt - pos_x prev),
               pos_y = pos_y (transformBase s) + (pos_y nxt - pos_y prev) \<rparr>\<rparr> \<and>
      (\<not> doingChildAnimation s \<longrightarrow>
         effects (doChildMove prev nxt timeDiff s) =
           effects s @
             [StartAnimation timeDiff (scaleTarget (doChildMove prev nxt timeDiff s))
                (transformBase (doChildMove prev nxt timeDiff s)) EmptyCallback]) \<and>
      (doingChildAnimation s \<longrightarrow>
         effects (doChildMove prev nxt timeDiff s) = effects s))"
proof (intro conjI impI)
  assume off: "\<not> (childDoingZoom s \<and> strict_neq (scaleTarget s) (Num 1))"
  then show same: "doChildMove prev nxt timeDiff s = s"
    by (auto simp: doChildMove_def)
  show "scaleTarget (doChildMove prev nxt timeDiff s) = scaleTarget s"
    and "transformBase (doChildMove prev nxt timeDiff s) = transformBase s"
    and "effects (doChildMove prev nxt timeDiff s) = effects s"
    by (simp_all add: same)
next
  assume on: "childDoingZoom s \<and> strict_neq (scaleTarget s) (Num 1)"
  then show run: "doChildMove prev nxt timeDiff s =
        doChildAnimation timeDiff EmptyCallback False
          (doChangeScale \<lparr> pos_x = pos_x nxt - pos_x prev, pos_y = pos_y nxt - pos_y prev \<rparr>
             (Num 1) None s)"
    by (simp add: doChildMove_def Let_def)
  show "doChangeScale \<lparr> pos_x = pos_x nxt - pos_x prev, pos_y = pos_y nxt - pos_y prev \<rparr>
          (Num 1) None s =
        s\<lparr>transformBase :=
             \<lparr> pos_x = pos_x (transformBase s) + (pos_x nxt - pos_x prev),
               pos_y = pos_y (transformBase s) + (pos_y nxt - pos_y prev) \<rparr>\<rparr>"
    by (simp add: doChangeScale_pan)
  {
    assume "\<not> doingChildAnimation s"
    then show "effects (doChildMove prev nxt timeDiff s) =
           effects s @
             [StartAnimation timeDiff (scaleTarget (doChildMove prev nxt timeDiff s))
                (transformBase (doChildMove prev nxt timeDiff s)) EmptyCallback]"
      by (simp add: run doChangeScale_pan doChildAnimation_def Let_def)
  next
    assume "doingChildAnimation s"
    then show "effects (doChildMove prev nxt timeDiff s) = effects s"
      by (simp add: run doChangeScale_pan doChildAnimation_def)
  }
qed

theorem doChildMove_guard_witness:
  "\<not> (childDoingZoom gallery \<and> strict_neq (scaleTarget gallery) (Num 1)) \<and>
   doChildMove \<lparr> pos_x = Num 100, pos_y = Num 100 \<rparr> \<lparr> pos_x = Num 110, pos_y = Num 100 \<rparr>
     (Num (- 16)) gallery = gallery \<and>
   childDoingZoom (pinch_settled\<lparr>scaleTarget := Num 2\<rparr>) \<and>
   strict_neq (scaleTarget (pinch_settled\<lparr>scaleTarget := Num 2\<rparr>)) (Num 1) \<and>
   scaleTarget (doChildMove \<lparr> pos_x = Num 100, pos_y = Num 100 \<rparr>
     \<lparr> pos_x = Num 110, pos_y = Num 100 \<rparr> (Num (- 16)) (pinch_settled\<lparr>scaleTarget := Num 2\<rparr>)) = Num 2 \<and>
   transformBase (doChildMove \<lparr> pos_x = Num 100, pos_y = Num 100 \<rparr>
     \<lparr> pos_x = Num 110, pos_y = Num 100 \<rparr> (Num (- 16)) (pinch_settled\<lparr>scaleTarget := Num 2\<rparr>)) =
       \<lparr> pos_x = Num 10, pos_y = Num 0 \<rparr> \<and>
   \<not> doingChildAnimation (pinch_settled\<lparr>scaleTarget := Num 2\<rparr>) \<and>
   effects (doChildMove \<lparr> pos_x = Num 100, pos_y = Num 100 \<rparr>
     \<lparr> pos_x = Num 110, pos_y = Num 100 \<rparr> (Num (- 16)) (pinch_settled\<lparr>scaleTarget := Num 2\<rparr>)) =
     effects pinch_settled @
       [StartAnimation (Num (- 16)) (Num 2) \<lparr> pos_x = Num 10, pos_y = Num 0 \<rparr> EmptyCallback] \<and>
   childDoingZoom second_pinch_moved \<and> strict_neq (scaleTarget second_pinch_moved) (Num 1) \<and>
   doingChildAnimation second_pinch_moved \<and>
   transformBase (doChildMove \<lparr> pos_x = Num 100, pos_y = Num 100 \<rparr>
     \<lparr> pos_x = Num 110, pos_y = Num 100 \<rparr> (Num (- 16)) second_pinch_moved) =
       \<lparr> pos_x = Num 10, pos_y = Num 0 \<rparr> \<and>
   effects (doChildMove \<lparr> pos_x = Num 100, pos_y = Num 100 \<rparr>
     \<lparr> pos_x = Num 110, pos_y = Num 100 \<rparr> (Num (- 16)) second_pinch_moved) =
     effects second_pinch_moved"
  using doChildMove_guard [of gallery "\<lparr> pos_x = Num 100, pos_y = Num 100 \<rparr>"
      "\<lparr> pos_x = Num 110, pos_y = Num 100 \<rparr>" "Num (- 16)"]
    doChildMove_guard [of "pinch_settled\<lparr>scaleTarget := Num 2\<rparr>" "\<lparr> pos_x = Num 100, pos_y = Num 100 \<rparr>"
      "\<lparr> pos_x = Num 110, pos_y = Num 100 \<rparr>" "Num (- 16)"]
    doChildMove_guard [of second_pinch_moved "\<lparr> pos_x = Num 100, pos_y = Num 100 \<rparr>"
      "\<lparr> pos_x = Num 110, pos_y = Num 100 \<rparr>" "Num (- 16)"]
  by (simp add: gallery_value pinch_settled_value second_pinch_moved_value strict_neq_def
      strict_eq_def doChildAnimation_def Let_def MAX_ZOOM_def MIN_ZOOM_def)

section \<open>The bounds of the animate step\<close>

lemma clamp_scale:
  assumes "a \<noteq> NaN"
  obtains c where "Math_max (Math_min a MAX_ZOOM) MIN_ZOOM = Num c" "1 / 2 \<le> c" "c \<le> 5"
proof (cases a)
  case (Num x)
  show ?thesis
    by (rule that[of "max (min x 5) (1 / 2)"]) (simp_all add: Num MAX_ZOOM_def MIN_ZOOM_def)
next
  case PosInf
  show ?thesis
    by (rule that[of 5]) (simp_all add: PosInf MAX_ZOOM_def MIN_ZOOM_def)
next
  case NegInf
  show ?thesis
    by (rule that[of "1 / 2"]) (simp_all add: NegInf MAX_ZOOM_def MIN_ZOOM_def)
next
  case NaN
  with assms show ?thesis by simp
qed

lemma clamp_axis:
  assumes "v \<noteq> NaN" "0 \<le> m"
  obtains c where "Math_max (Math_min v (Num m)) (- Num m) = Num c" "\<bar>c\<bar> \<le> m"
proof (cases v)
  case (Num x)
  show ?thesis
    using assms(2) by (intro that[of "max (min x m) (- m)"]) (simp_all add: Num)
next
  case PosInf
  show ?thesis
    using assms(2) by (intro that[of m]) (simp_all add: PosInf)
next
  case NegInf
  show ?thesis
    using assms(2) by (intro that[of "- m"]) (simp_all add: NegInf)
next
  case NaN
  with assms show ?thesis by simp
qed

lemma doChildAnimation_skipped:
  "doingChildAnimation s \<Longrightarrow> doChildAnimation timing callback False s = s"
  by (simp add: doChildAnimation_def)

lemma doChildAnimation_scaleTarget:
  "\<not> (doingChildAnimation s \<and> \<not> override) \<Longrightarrow>
   scaleTarget (doChildAnimation timing callback override s) =
     Math_max (Math_min (scaleTarget s) MAX_ZOOM) MIN_ZOOM"
  by (cases override) (simp_all add: doChildAnimation_def Let_def)

lemma doChildAnimation_viewPort:
  "viewPort (doChildAnimation timing callback override s) = viewPort s"
  by (cases override) (simp_all add: doChildAnimation_def Let_def)

lemma doChildAnimation_childState:
  "childState (doChildAnimation timing callback override s) = childState s"
  by (cases override) (simp_all add: doChildAnimation_def Let_def)

lemma doChildAnimation_transformBase:
  "\<not> (doingChildAnimation s \<and> \<not> override) \<Longrightarrow>
   transformBase (doChildAnimation timing callback override s) =
     (let b = Math_max (Math_min (scaleTarget s) MAX_ZOOM) MIN_ZOOM;
          maxX = (width (viewPort s) * \<bar>Num 1 - b\<bar>) / Num 2;
          maxY = (height (viewPort s) * \<bar>Num 1 - b\<bar>) / Num 2
      in \<lparr> pos_x = Math_max (Math_min (pos_x (transformBase s)) maxX) (- maxX),
           pos_y = Math_max (Math_min (pos_y (transformBase s)) maxY) (- maxY) \<rparr>)"
  by (cases override) (simp_all add: doChildAnimation_def Let_def)

lemma doChildAnimation_scale_in_bounds:
  assumes run: "\<not> (doingChildAnimation s \<and> \<not> override)"
    and sc: "scaleTarget s \<noteq> NaN"
  shows "MIN_ZOOM \<le> scaleTarget (doChildAnimation timing callback override s)"
    and "scaleTarget (doChildAnimation timing callback override s) \<le> MAX_ZOOM"
proof -
  obtain c where c: "Math_max (Math_min (scaleTarget s) MAX_ZOOM) MIN_ZOOM = Num c"
      "1 / 2 \<le> c" "c \<le> 5"
    using sc by (rule clamp_scale)
  have st: "scaleTarget (doChildAnimation timing callback override s) = Num c"
    using run c(1) by (simp add: doChildAnimation_scaleTarget)
  show "MIN_ZOOM \<le> scaleTarget (doChildAnimation timing callback override s)"
    using c(2) by (simp add: st MIN_ZOOM_def)
  show "scaleTarget (doChildAnimation timing callback override s) \<le> MAX_ZOOM"
    using c(3) by (simp add: st MAX_ZOOM_def)
qed

lemma doChildAnimation_x_in_bounds:
  assumes run: "\<not> (doingChildAnimation s \<and> \<not> override)"
    and sc: "scaleTarget s \<noteq> NaN"
    and tx: "pos_x (transformBase s) \<noteq> NaN"
    and w: "isFinite (width (viewPort s))" "Num 0 \<le> width (viewPort s)"
  shows "\<bar>pos_x (transformBase (doChildAnimation timing callback override s))\<bar> \<le>
           (width (viewPort (doChildAnimation timing callback override s)) *
             \<bar>Num 1 - scaleTarget (doChildAnimation timing callback override s)\<bar>) / Num 2"
proof -
  obtain c where c: "Math_max (Math_min (scaleTarget s) MAX_ZOOM) MIN_ZOOM = Num c"
    using sc by (rule clamp_scale)
  obtain vw where vw: "width (viewPort s) = Num vw" "0 \<le> vw"
    using w by (cases "width (viewPort s)") auto
  have mx: "0 \<le> vw * \<bar>1 - c\<bar> / 2"
    using vw by simp
  obtain bx where bx:
      "Math_max (Math_min (pos_x (transformBase s)) (Num (vw * \<bar>1 - c\<bar> / 2)))
         (- Num (vw * \<bar>1 - c\<bar> / 2)) = Num bx"
      "\<bar>bx\<bar> \<le> vw * \<bar>1 - c\<bar> / 2"
    using tx mx by (rule clamp_axis)
  have st: "scaleTarget (doChildAnimation timing callback override s) = Num c"
    using run c by (simp add: doChildAnimation_scaleTarget)
  have px: "pos_x (transformBase (doChildAnimation timing callback override s)) = Num bx"
    using run c bx(1) vw(1) by (simp add: doChildAnimation_transformBase Let_def)
  show ?thesis
    using bx(2) by (simp add: st doChildAnimation_viewPort px vw(1))
qed

lemma doChildAnimation_y_in_bounds:
  assumes run: "\<not> (doingChildAnimation s \<and> \<not> override)"
    and sc: "scaleTarget s \<noteq> NaN"
    and ty: "pos_y (transformBase s) \<noteq> NaN"
    and h: "isFinite (height (viewPort s))" "Num 0 \<le> height (viewPort s)"
  shows "\<bar>pos_y (transformBase (doChildAnimation timing callback override s))\<bar> \<le>
           (height (viewPort (doChildAnimation timing callback override s)) *
             \<bar>Num 1 - scaleTarget (doChildAnimation timing callback override s)\<bar>) / Num 2"
proof -
  obtain c where c: "Math_max (Math_min (scaleTarget s) MAX_ZOOM) MIN_ZOOM = Num c"
    using sc by (rule clamp_scale)
  obtain vh where vh: "height (viewPort s) = Num vh" "0 \<le> vh"
    using h by (cases "height (viewPort s)") auto
  have my: "0 \<le> vh * \<bar>1 - c\<bar> / 2"
    using vh by simp
  obtain bz where bz:
      "Math_max (Math_min (pos_y (transformBase s)) (Num (vh * \<bar>1 - c\<bar> / 2)))
         (- Num (vh * \<bar>1 - c\<bar> / 2)) = Num bz"
      "\<bar>bz\<bar> \<le> vh * \<bar>1 - c\<bar> / 2"
    using ty my by (rule clamp_axis)
  have st: "scaleTarget (doChildAnimation timing callback override s) = Num c"
    using run c by (simp add: doChildAnimation_scaleTarget)
  have py: "pos_y (transformBase (doChildAnimation timing callback override s)) = Num bz"
    using run c bz(1) vh(1) by (simp add: doChildAnimation_transformBase Let_def)
  show ?thesis
    using bz(2) by (simp add: st doChildAnimation_viewPort py vh(1))
qed

text \<open>
  C2 does not hold as stated, for two reasons. A call of \<^verbatim>\<open>doChildAnimation\<close> made
  without override while an animation runs returns at its first statement and clamps
  nothing: in the run above the second pinch moves while the reset animation runs, and
  the call leaves the target scale at 10, above \<^verbatim>\<open>MAX_ZOOM\<close>. And
  \<^verbatim>\<open>Math.min\<close> and \<^verbatim>\<open>Math.max\<close> hand NaN on: after the two fingers that came
  down on one point, no animation running, a call on the target of a pinch move that
  stays at distance zero (ratio \<^verbatim>\<open>0 / 0\<close>) leaves the scale NaN, and the call on the
  target of the pinch move to distance 100 (ratio \<^verbatim>\<open>100 / 0\<close>) clamps the infinite
  scale to 5 and leaves the translation NaN, which is within no bound.
\<close>

theorem doChildAnimation_skipped_unbounded:
  "doingChildAnimation second_pinch_moved \<and>
   doChildAnimation (Num (- 16)) EmptyCallback False second_pinch_moved = second_pinch_moved \<and>
   scaleTarget (doChildAnimation (Num (- 16)) EmptyCallback False second_pinch_moved) = Num 10 \<and>
   \<not> scaleTarget (doChildAnimation (Num (- 16)) EmptyCallback False second_pinch_moved) \<le> MAX_ZOOM \<and>
   \<not> doingChildAnimation coincident_started \<and>
   scaleTarget (doChildAnimation (Num (- 16)) EmptyCallback False
     (doChangeScale \<lparr>pos_x = Num 0, pos_y = Num 0\<rparr> (Num 0 / Num 0)
        (Some \<lparr>pos_x = Num 0, pos_y = Num 0\<rparr>) coincident_started)) = NaN \<and>
   \<not> MIN_ZOOM \<le> scaleTarget (doChildAnimation (Num (- 16)) EmptyCallback False
     (doChangeScale \<lparr>pos_x = Num 0, pos_y = Num 0\<rparr> (Num 0 / Num 0)
        (Some \<lparr>pos_x = Num 0, pos_y = Num 0\<rparr>) coincident_started)) \<and>
   scaleTarget (doChildAnimation (Num (- 16)) EmptyCallback False
     (doChangeScale \<lparr>pos_x = Num 0, pos_y = Num 0\<rparr> (Num 100 / Num 0)
        (Some \<lparr>pos_x = Num 0, pos_y = Num 0\<rparr>) coincident_started)) = Num 5 \<and>
   pos_x (transformBase (doChildAnimation (Num (- 16)) EmptyCallback False
     (doChangeScale \<lparr>pos_x = Num 0, pos_y = Num 0\<rparr> (Num 100 / Num 0)
        (Some \<lparr>pos_x = Num 0, pos_y = Num 0\<rparr>) coincident_started))) = NaN \<and>
   \<not> \<bar>pos_x (transformBase (doChildAnimation (Num (- 16)) EmptyCallback False
     (doChangeScale \<lparr>pos_x = Num 0, pos_y = Num 0\<rparr> (Num 100 / Num 0)
        (Some \<lparr>pos_x = Num 0, pos_y = Num 0\<rparr>) coincident_started)))\<bar> \<le>
     (Num 300 * \<bar>Num 1 - Num 5\<bar>) / Num 2"
  by (simp add: second_pinch_moved_value coincident_started_value doChildAnimation_def
      doChangeScale_def positionMult_def Let_def signed_inf_def minus_number_def
      MAX_ZOOM_def MIN_ZOOM_def)

text \<open>
  C2, amended. A call of \<^verbatim>\<open>doChildAnimation\<close> made without override while an
  animation runs changes nothing. After every other call (override set, or no animation
  running) whose target scale is not NaN, the target scale lies within \<open>[0.5, 5]\<close>,
  whatever its magnitude was, infinite included, and whatever the translation and the
  view port are. After such a call, each component of the target translation that was
  not NaN has magnitude at most the corresponding dimension of the view port times
  \<open>|1 - scale| / 2\<close>, when that dimension is finite and not negative.
\<close>

theorem doChildAnimation_bounds:
  "(doingChildAnimation s \<and> \<not> override \<longrightarrow>
      doChildAnimation timing callback override s = s) \<and>
   (\<not> (doingChildAnimation s \<and> \<not> override) \<and> scaleTarget s \<noteq> NaN \<longrightarrow>
      MIN_ZOOM \<le> scaleTarget (doChildAnimation timing callback override s) \<and>
      scaleTarget (doChildAnimation timing callback override s) \<le> MAX_ZOOM) \<and>
   (\<not> (doingChildAnimation s \<and> \<not> override) \<and> scaleTarget s \<noteq> NaN \<and>
    pos_x (transformBase s) \<noteq> NaN \<and>
    isFinite (width (viewPort s)) \<and> Num 0 \<le> width (viewPort s) \<longrightarrow>
      \<bar>pos_x (transformBase (doChildAnimation timing callback override s))\<bar> \<le>
        (width (viewPort (doChildAnimation timing callback override s)) *
          \<bar>Num 1 - scaleTarget (doChildAnimation timing callback override s)\<bar>) / Num 2) \<and>
   (\<not> (doingChildAnimation s \<and> \<not> override) \<and> scaleTarget s \<noteq> NaN \<and>
    pos_y (transformBase s) \<noteq> NaN \<and>
    isFinite (height (viewPort s)) \<and> Num 0 \<le> height (viewPort s) \<longrightarrow>
      \<bar>pos_y (transformBase (doChildAnimation timing callback override s))\<bar> \<le>
        (height (viewPort (doChildAnimation timing callback override s)) *
          \<bar>Num 1 - scaleTarget (doChildAnimation timing callback override s)\<bar>) / Num 2)"
proof (intro conjI impI)
  assume "doingChildAnimation s \<and> \<not> override"
  then show "doChildAnimation timing callback override s = s"
    by (simp add: doChildAnimation_def)
next
  assume h: "\<not> (doingChildAnimation s \<and> \<not> override) \<and> scaleTarget s \<noteq> NaN"
  then show "MIN_ZOOM \<le> scaleTarget (doChildAnimation timing callback override s)"
    by (intro doChildAnimation_scale_in_bounds) simp_all
  from h show "scaleTarget (doChildAnimation timing callback override s) \<le> MAX_ZOOM"
    by (intro doChildAnimation_scale_in_bounds) simp_all
next
  assume "\<not> (doingChildAnimation s \<and> \<not> override) \<and> scaleTarget s \<noteq> NaN \<and>
    pos_x (transformBase s) \<noteq> NaN \<and>
    isFinite (width (viewPort s)) \<and> Num 0 \<le> width (viewPort s)"
  then show "\<bar>pos_x (transformBase (doChildAnimation timing callback override s))\<bar> \<le>
        (width (viewPort (doChildAnimation timing callback override s)) *
          \<bar>Num 1 - scaleTarget (doChildAnimation timing callback override s)\<bar>) / Num 2"
    by (intro doChildAnimation_x_in_bounds) simp_all
next
  assume "\<not> (doingChildAnimation s \<and> \<not> override) \<and> scaleTarget s \<noteq> NaN \<and>
    pos_y (transformBase s) \<noteq> NaN \<and>
    isFinite (height (viewPort s)) \<and> Num 0 \<le> height (viewPort s)"
  then show "\<bar>pos_y (transformBase (doChildAnimation timing callback override s))\<bar> \<le>
        (height (viewPort (doChildAnimation timing callback override s)) *
          \<bar>Num 1 - scaleTarget (doChildAnimation timing callback override s)\<bar>) / Num 2"
    by (intro doChildAnimation_y_in_bounds) simp_all
qed

theorem doChildAnimation_bounds_witness:
  "doingChildAnimation second_pinch_moved \<and>
   doChildAnimation (Num 16) EmptyCallback False second_pinch_moved = second_pinch_moved \<and>
   \<not> doingChildAnimation coincident_started \<and>
   scaleTarget (doChangeScale \<lparr>pos_x = Num 0, pos_y = Num 0\<rparr> (Num 100 / Num 0)
     (Some \<lparr>pos_x = Num 0, pos_y = Num 0\<rparr>) coincident_started) = PosInf \<and>
   PosInf \<noteq> NaN \<and>
   pos_x (transformBase (doChangeScale \<lparr>pos_x = Num 0, pos_y = Num 0\<rparr> (Num 100 / Num 0)
     (Some \<lparr>pos_x = Num 0, pos_y = Num 0\<rparr>) coincident_started)) = NaN \<and>
   scaleTarget (doChildAnimation (Num (- 16)) EmptyCallback False
     (doChangeScale \<lparr>pos_x = Num 0, pos_y = Num 0\<rparr> (Num 100 / Num 0)
        (Some \<lparr>pos_x = Num 0, pos_y = Num 0\<rparr>) coincident_started)) = Num 5 \<and>
   MIN_ZOOM \<le> Num 5 \<and> Num 5 \<le> MAX_ZOOM \<and>
   scaleTarget (second_pinch_moved\<lparr>transformBase := \<lparr> pos_x = PosInf, pos_y = Num (- 700) \<rparr>\<rparr>) \<noteq> NaN \<and>
   isFinite (width (viewPort second_pinch_moved)) \<and> Num 0 \<le> width (viewPort second_pinch_moved) \<and>
   isFinite (height (viewPort second_pinch_moved)) \<and> Num 0 \<le> height (viewPort second_pinch_moved) \<and>
   scaleTarget (doChildAnimation (Num 16) EmptyCallback True
     (second_pinch_moved\<lparr>transformBase := \<lparr> pos_x = PosInf, pos_y = Num (- 700) \<rparr>\<rparr>)) = Num 5 \<and>
   transformBase (doChildAnimation (Num 16) EmptyCallback True
     (second_pinch_moved\<lparr>transformBase := \<lparr> pos_x = PosInf, pos_y = Num (- 700) \<rparr>\<rparr>)) =
       \<lparr> pos_x = Num 600, pos_y = Num (- 600) \<rparr> \<and>
   \<bar>Num 600\<bar> \<le> (Num 300 * \<bar>Num 1 - Num 5\<bar>) / Num 2 \<and>
   \<bar>Num (- 600)\<bar> \<le> (Num 300 * \<bar>Num 1 - Num 5\<bar>) / Num 2"
  using doChildAnimation_bounds [of second_pinch_moved False "Num 16" EmptyCallback]
    doChildAnimation_bounds
      [of "doChangeScale \<lparr>pos_x = Num 0, pos_y = Num 0\<rparr> (Num 100 / Num 0)
             (Some \<lparr>pos_x = Num 0, pos_y = Num 0\<rparr>) coincident_started"
          False "Num (- 16)" EmptyCallback]
    doChildAnimation_bounds
      [of "second_pinch_moved\<lparr>transformBase := \<lparr> pos_x = PosInf, pos_y = Num (- 700) \<rparr>\<rparr>"
          True "Num 16" EmptyCallback]
  by (simp add: second_pinch_moved_value coincident_started_value doChildAnimation_def
      doChangeScale_def Let_def positionMult_def signed_inf_def minus_number_def
      MAX_ZOOM_def MIN_ZOOM_def)

lemma tapped_once_value:
  "tapped_once =
    \<lparr>data = [Suc 0, 2], currentIndex = 0,
       viewPort = \<lparr>width = Num 300, height = Num 300\<rparr>,
       absolutePosition = \<lparr>pos_x = Num 0, pos_y = Num 0\<rparr>, scaleTarget = Num 1,
       transformBase = \<lparr>pos_x = Num 0, pos_y = Num 0\<rparr>,
       childState = \<lparr>gesture = Other, lastTouch = Num 2000\<rparr>,
       childDoingZoom = False, doingChildAnimation = False, effects = []\<rparr>"
  unfolding tapped_once_def gallery_value by (simp add: run_defs)

lemma tapped_twice_value:
  "tapped_twice =
    \<lparr>data = [Suc 0, 2], currentIndex = 0,
       viewPort = \<lparr>width = Num 300, height = Num 300\<rparr>,
       absolutePosition = \<lparr>pos_x = Num 0, pos_y = Num 0\<rparr>, scaleTarget = Num 2,
       transformBase = \<lparr>pos_x = Num (- 50), pos_y = Num 0\<rparr>,
       childState = \<lparr>gesture = Other, lastTouch = Num 0\<rparr>,
       childDoingZoom = True, doingChildAnimation = True,
       effects =
         [StopAnimation,
          StartAnimation (Num 300) (Num 2) \<lparr>pos_x = Num (- 50), pos_y = Num 0\<rparr>
           EmptyCallback]\<rparr>"
  unfolding tapped_twice_def tapped_once_value by (simp add: run_defs)

section \<open>The pinch ratio at distance zero\<close>

text \<open>
  C3 does not hold as stated: \<^verbatim>\<open>doChildPinchMove\<close> divides by the previous
  distance without looking at it. Two fingers come down on the same point of the fresh
  gallery and move apart to distance 100: the ratio is \<^verbatim>\<open>100 / 0\<close>, the scale
  change makes the target scale infinite, and the animate step leaves the target at
  scale 5 (it was 1) with a translation that is NaN.
\<close>

theorem pinch_from_zero_distance_scales:
  "gesture (childState coincident_started) =
     Double \<lparr>center = \<lparr>pos_x = Num 150, pos_y = Num 150\<rparr>, distance = Num 0\<rparr>
            \<lparr>center = \<lparr>pos_x = Num 150, pos_y = Num 150\<rparr>, distance = Num 0\<rparr> (Num 1000) \<and>
   scaleTarget coincident_started = Num 1 \<and>
   Num 100 / Num 0 = PosInf \<and>
   scaleTarget (doChangeScale \<lparr>pos_x = Num 0, pos_y = Num 0\<rparr> (Num 100 / Num 0)
     (Some \<lparr>pos_x = Num 0, pos_y = Num 0\<rparr>) coincident_started) = PosInf \<and>
   \<not> isFinite (scaleTarget (doChangeScale \<lparr>pos_x = Num 0, pos_y = Num 0\<rparr> (Num 100 / Num 0)
     (Some \<lparr>pos_x = Num 0, pos_y = Num 0\<rparr>) coincident_started)) \<and>
   scaleTarget (doChildPinchMove
     \<lparr>center = \<lparr>pos_x = Num 150, pos_y = Num 150\<rparr>, distance = Num 0\<rparr>
     \<lparr>center = \<lparr>pos_x = Num 150, pos_y = Num 150\<rparr>, distance = Num 100\<rparr>
     (Num (- 16)) coincident_started) = Num 5 \<and>
   scaleTarget coincident_moved = Num 5 \<and>
   scaleTarget coincident_moved \<noteq> scaleTarget coincident_started \<and>
   transformBase coincident_moved = \<lparr>pos_x = NaN, pos_y = NaN\<rparr>"
  by (simp add: coincident_started_value coincident_moved_value doChildPinchMove_def
      doChangeScale_def doChildAnimation_def getCenterDisposition_def centerPosition_def
      positionMult_def Let_def signed_inf_def minus_number_def MAX_ZOOM_def MIN_ZOOM_def)

text \<open>
  C3, amended. A pinch-move event whose previous pinch distance is zero raises no error:
  \<^verbatim>\<open>doChildPinchMove\<close> returns a state for it. The scale ratio it applies is the
  quotient of the next distance by zero as the number division gives it, not 1:
  \<^verbatim>\<open>Infinity\<close> when the next distance is positive, NaN when it is zero as well.
  With the infinite ratio a positive finite target scale becomes infinite in the scale
  change, and the animate step, when no animation is running, clamps it to
  \<^verbatim>\<open>MAX_ZOOM\<close>.
\<close>

theorem doChildPinchMove_zero_distance:
  "distance prev = Num 0 \<longrightarrow>
   (distance nxt = Num d \<and> 0 < d \<longrightarrow>
      doChildPinchMove prev nxt timeDiff s =
        doChildAnimation timeDiff EmptyCallback False
          (doChangeScale \<lparr> pos_x = pos_x (center nxt) - pos_x (center prev),
                           pos_y = pos_y (center nxt) - pos_y (center prev) \<rparr>
             PosInf (Some (getCenterDisposition (center prev) s)) s)) \<and>
   (distance nxt = Num 0 \<longrightarrow>
      doChildPinchMove prev nxt timeDiff s =
        doChildAnimation timeDiff EmptyCallback False
          (doChangeScale \<lparr> pos_x = pos_x (center nxt) - pos_x (center prev),
                           pos_y = pos_y (center nxt) - pos_y (center prev) \<rparr>
             NaN (Some (getCenterDisposition (center prev) s)) s)) \<and>
   (distance nxt = Num d \<and> 0 < d \<and> scaleTarget s = Num sc \<and> 0 < sc \<longrightarrow>
      scaleTarget
        (doChangeScale \<lparr> pos_x = pos_x (center nxt) - pos_x (center prev),
                         pos_y = pos_y (center nxt) - pos_y (center prev) \<rparr>
           (distance nxt / distance prev) (Some (getCenterDisposition (center prev) s)) s) = PosInf \<and>
      (\<not> doingChildAnimation s \<longrightarrow>
         scaleTarget (doChildPinchMove prev nxt timeDiff s) = MAX_ZOOM))"
proof (intro impI conjI)
  assume z: "distance prev = Num 0"
  {
    assume "distance nxt = Num d \<and> 0 < d"
    then show "doChildPinchMove prev nxt timeDiff s =
        doChildAnimation timeDiff EmptyCallback False
          (doChangeScale \<lparr> pos_x = pos_x (center nxt) - pos_x (center prev),
                           pos_y = pos_y (center nxt) - pos_y (center prev) \<rparr>
             PosInf (Some (getCenterDisposition (center prev) s)) s)"
      by (simp add: doChildPinchMove_def Let_def z signed_inf_def)
  next
    assume "distance nxt = Num 0"
    then show "doChildPinchMove prev nxt timeDiff s =
        doChildAnimation timeDiff EmptyCallback False
          (doChangeScale \<lparr> pos_x = pos_x (center nxt) - pos_x (center prev),
                           pos_y = pos_y (center nxt) - pos_y (center prev) \<rparr>
             NaN (Some (getCenterDisposition (center prev) s)) s)"
      by (simp add: doChildPinchMove_def Let_def z signed_inf_def)
  next
    assume h: "distance nxt = Num d \<and> 0 < d \<and> scaleTarget s = Num sc \<and> 0 < sc"
    then show inf: "scaleTarget
        (doChangeScale \<lparr> pos_x = pos_x (center nxt) - pos_x (center prev),
                         pos_y = pos_y (center nxt) - pos_y (center prev) \<rparr>
           (distance nxt / distance prev) (Some (getCenterDisposition (center prev) s)) s) = PosInf"
      by (simp add: doChangeScale_def Let_def z signed_inf_def)
    assume idle: "\<not> doingChildAnimation s"
    have "\<not> doingChildAnimation
        (doChangeScale \<lparr> pos_x = pos_x (center nxt) - pos_x (center prev),
                         pos_y = pos_y (center nxt) - pos_y (center prev) \<rparr>
           (distance nxt / distance prev) (Some (getCenterDisposition (center prev) s)) s)"
      using idle by (simp add: doChangeScale_def Let_def)
    then show "scaleTarget (doChildPinchMove prev nxt timeDiff s) = MAX_ZOOM"
      using inf by (simp add: doChildPinchMove_def Let_def doChildAnimation_scaleTarget
          MAX_ZOOM_def MIN_ZOOM_def)
  }
qed

theorem doChildPinchMove_zero_distance_witness:
  "distance \<lparr>center = \<lparr>pos_x = Num 150, pos_y = Num 150\<rparr>, distance = Num 0\<rparr> = Num 0 \<and>
   distance \<lparr>center = \<lparr>pos_x = Num 150, pos_y = Num 150\<rparr>, distance = Num 100\<rparr> = Num 100 \<and>
   (0 :: real) < 100 \<and> scaleTarget coincident_started = Num 1 \<and> (0 :: real) < 1 \<and>
   \<not> doingChildAnimation coincident_started \<and>
   scaleTarget (doChildPinchMove
     \<lparr>center = \<lparr>pos_x = Num 150, pos_y = Num 150\<rparr>, distance = Num 0\<rparr>
     \<lparr>center = \<lparr>pos_x = Num 150, pos_y = Num 150\<rparr>, distance = Num 100\<rparr>
     (Num (- 16)) coincident_started) = Num 5 \<and>
   doChildPinchMove
     \<lparr>center = \<lparr>pos_x = Num 150, pos_y = Num 150\<rparr>, distance = Num 0\<rparr>
     \<lparr>center = \<lparr>pos_x = Num 150, pos_y = Num 150\<rparr>, distance = Num 100\<rparr>
     (Num (- 16)) coincident_started =
   doChildAnimation (Num (- 16)) EmptyCallback False
     (doChangeScale \<lparr>pos_x = Num 0, pos_y = Num 0\<rparr> PosInf
        (Some \<lparr>pos_x = Num 0, pos_y = Num 0\<rparr>) coincident_started)"
  using doChildPinchMove_zero_distance
    [of "\<lparr>center = \<lparr>pos_x = Num 150, pos_y = Num 150\<rparr>, distance = Num 0\<rparr>"
        "\<lparr>center = \<lparr>pos_x = Num 150, pos_y = Num 150\<rparr>, distance = Num 100\<rparr>"
        100 "Num (- 16)" coincident_started 1]
  by (simp add: coincident_started_value doChildPinchMove_def doChangeScale_def
      doChildAnimation_def getCenterDisposition_def centerPosition_def positionMult_def
      Let_def MAX_ZOOM_def MIN_ZOOM_def signed_inf_def minus_number_def)

section \<open>The double tap\<close>

lemma doChangeScale_childState:
  "childState (doChangeScale d r p s) = childState s"
  by (simp add: doChangeScale_def Let_def)

lemma doChildDoubleTouch_childState:
  "childState (doChildDoubleTouch secondTouch timediff s) = childState s"
  by (simp add: doChildDoubleTouch_def doChildReset_def Let_def doChildAnimation_childState
      doChangeScale_childState)

lemma clamp_inside: "- m \<le> v \<Longrightarrow> v \<le> m \<Longrightarrow> max (min v m) (- m) = (v :: real)"
  by simp

lemma double_tap_from_identity:
  assumes idle: "\<not> childDoingZoom s"
    and scale1: "scaleTarget s = Num 1"
    and at0: "transformBase s = \<lparr> pos_x = Num 0, pos_y = Num 0 \<rparr>"
    and vp: "viewPort s = \<lparr> width = Num w, height = Num h \<rparr>"
    and px: "pos_x secondTouch = Num tx" "0 \<le> tx" "tx \<le> w"
    and py: "pos_y secondTouch = Num ty" "0 \<le> ty" "ty \<le> h"
  shows "scaleTarget (doChildDoubleTouch secondTouch timediff s) = Num 2"
    and "transformBase (doChildDoubleTouch secondTouch timediff s) =
           positionMult (getCenterDisposition secondTouch s) (Num 1 - Num 2)"
proof -
  have cx: "max (min (w / 2 - tx) (w / 2)) (- (w / 2)) = w / 2 - tx"
    using px by (intro clamp_inside) simp_all
  have cy: "max (min (h / 2 - ty) (h / 2)) (- (h / 2)) = h / 2 - ty"
    using py by (intro clamp_inside) simp_all
  show "scaleTarget (doChildDoubleTouch secondTouch timediff s) = Num 2"
    using idle scale1
    by (simp add: doChildDoubleTouch_def Let_def doChildAnimation_scaleTarget
        doChangeScale_def DEFAULT_ZOOM_def MAX_ZOOM_def MIN_ZOOM_def)
  show "transformBase (doChildDoubleTouch secondTouch timediff s) =
           positionMult (getCenterDisposition secondTouch s) (Num 1 - Num 2)"
    using idle scale1 at0 vp px(1) py(1) cx cy
    by (simp add: doChildDoubleTouch_def Let_def doChildAnimation_transformBase
        doChangeScale_def getCenterDisposition_def centerPosition_def positionMult_def
        DEFAULT_ZOOM_def MAX_ZOOM_def MIN_ZOOM_def)
qed

text \<open>
  C4 does not hold as stated: the double tap multiplies the current target scale
  by \<^verbatim>\<open>DEFAULT_ZOOM\<close>, and the zoom flag can be clear while the target is not the
  identity. In the run above the reset completes after a pinch has moved the target
  scale to 10 behind the running animation; the second of two taps then finds zoom not
  in progress, and the target scale becomes 5 (20 clamped), not 2.
\<close>

theorem double_tap_not_scale_2:
  "\<not> childDoingZoom first_tap \<and>
   status (gesture (childState first_tap)) \<noteq> SINGLE \<and>
   timeStamp (tap 2100 200 150) - lastTouch (childState first_tap) < DOUBLE_TOUCH_THRES \<and>
   scaleTarget first_tap = Num 10 \<and>
   scaleTarget (onStartTouchResponder (tap 2100 200 150) first_tap) = Num 5 \<and>
   scaleTarget (onStartTouchResponder (tap 2100 200 150) first_tap) \<noteq> DEFAULT_ZOOM \<and>
   scaleTarget second_tap = Num 5"
  by (simp add: first_tap_value second_tap_value run_defs)

text \<open>
  C4, amended. A single-finger touch-down whose time stamp is less than 300 ms after the
  recorded \<^verbatim>\<open>lastTouch\<close>, while the gesture state is not \<^verbatim>\<open>SINGLE\<close>, resets
  \<^verbatim>\<open>lastTouch\<close> to 0, leaves the gesture state as it is (no drag starts) and runs
  the double-tap shortcut. When zoom is in progress the shortcut is the reset to the
  identity over 300 ms. When zoom is not in progress it is the scale change with ratio
  2 (\<^verbatim>\<open>DEFAULT_ZOOM\<close>), no translation delta and the offset \<open>c\<close> of the touch from the
  centre of the view port as pivot, followed by the overriding animate step over 300
  ms: the target scale is multiplied by 2 and the translation \<open>t\<close> becomes
  \<open>t + (c - t) * (1 - 2)\<close>, both then clamped. From the identity target (scale 1,
  translation \<open>(0, 0)\<close>) and a touch inside the view port that is scale 2 and translation
  \<open>c * (1 - 2)\<close>; a double tap 50 to the right of the centre of a view port 300 wide
  gives scale 2 and translation \<open>(-50, 0)\<close>.
\<close>

theorem onStartTouchResponder_double_tap:
  "(timeStamp event - lastTouch (childState s) < DOUBLE_TOUCH_THRES \<and>
    status (gesture (childState s)) \<noteq> SINGLE \<longrightarrow>
   (let newPos = \<lparr> pos_x = pageX event - pos_x (absolutePosition s),
                    pos_y = pageY event - pos_y (absolutePosition s) \<rparr>;
        s1 = s\<lparr>childState := (childState s)\<lparr>lastTouch := Num 0\<rparr>\<rparr>;
        c = getCenterDisposition newPos s1;
        s2 = doChangeScale \<lparr> pos_x = Num 0, pos_y = Num 0 \<rparr> DEFAULT_ZOOM (Some c) s1
    in lastTouch (childState (onStartTouchResponder event s)) = Num 0 \<and>
       gesture (childState (onStartTouchResponder event s)) = gesture (childState s) \<and>
       (childDoingZoom s \<longrightarrow>
          onStartTouchResponder event s = doChildReset SOFT_ANIMIATION_TIME s1) \<and>
       (\<not> childDoingZoom s \<longrightarrow>
          onStartTouchResponder event s =
            doChildAnimation SOFT_ANIMIATION_TIME EmptyCallback True s2 \<and>
          scaleTarget s2 = scaleTarget s * Num 2 \<and>
          transformBase s2 =
            \<lparr> pos_x = pos_x (transformBase s) + (pos_x c - pos_x (transformBase s)) * (Num 1 - Num 2),
              pos_y = pos_y (transformBase s) + (pos_y c - pos_y (transformBase s)) * (Num 1 - Num 2) \<rparr>) \<and>
       (\<not> childDoingZoom s \<and> scaleTarget s = Num 1 \<and>
        transformBase s = \<lparr> pos_x = Num 0, pos_y = Num 0 \<rparr> \<and>
        viewPort s = \<lparr> width = Num w, height = Num h \<rparr> \<and>
        pos_x newPos = Num tx \<and> 0 \<le> tx \<and> tx \<le> w \<and>
        pos_y newPos = Num ty \<and> 0 \<le> ty \<and> ty \<le> h \<longrightarrow>
          scaleTarget (onStartTouchResponder event s) = Num 2 \<and>
          transformBase (onStartTouchResponder event s) = positionMult c (Num 1 - Num 2)))) \<and>
   scaleTarget (onStartTouchResponder (tap 2100 200 150) tapped_once) = Num 2 \<and>
   transformBase (onStartTouchResponder (tap 2100 200 150) tapped_once) =
     \<lparr> pos_x = Num (- 50), pos_y = Num 0 \<rparr>"
proof (intro conjI impI)
  assume h: "timeStamp event - lastTouch (childState s) < DOUBLE_TOUCH_THRES \<and>
    status (gesture (childState s)) \<noteq> SINGLE"
  define newPos where "newPos = \<lparr> pos_x = pageX event - pos_x (absolutePosition s),
                    pos_y = pageY event - pos_y (absolutePosition s) \<rparr>"
  define s1 where "s1 = s\<lparr>childState := (childState s)\<lparr>lastTouch := Num 0\<rparr>\<rparr>"
  have run: "onStartTouchResponder event s =
      doChildDoubleTouch newPos (timeStamp event - lastTouch (childState s)) s1"
    using h by (simp add: onStartTouchResponder_def Let_def newPos_def s1_def)
  have a: "lastTouch (childState (onStartTouchResponder event s)) = Num 0"
    and b: "gesture (childState (onStartTouchResponder event s)) = gesture (childState s)"
    by (simp_all add: run doChildDoubleTouch_childState s1_def)
  have c: "childDoingZoom s \<longrightarrow>
      onStartTouchResponder event s = doChildReset SOFT_ANIMIATION_TIME s1"
    by (simp add: run doChildDoubleTouch_def s1_def)
  have d: "\<not> childDoingZoom s \<longrightarrow>
      onStartTouchResponder event s =
        doChildAnimation SOFT_ANIMIATION_TIME EmptyCallback True
          (doChangeScale \<lparr> pos_x = Num 0, pos_y = Num 0 \<rparr> DEFAULT_ZOOM
             (Some (getCenterDisposition newPos s1)) s1)"
    by (simp add: run doChildDoubleTouch_def Let_def s1_def)
  have e: "scaleTarget (doChangeScale \<lparr> pos_x = Num 0, pos_y = Num 0 \<rparr> DEFAULT_ZOOM
             (Some (getCenterDisposition newPos s1)) s1) = scaleTarget s * Num 2"
    by (simp add: doChangeScale_def Let_def DEFAULT_ZOOM_def s1_def)
  have f: "transformBase (doChangeScale \<lparr> pos_x = Num 0, pos_y = Num 0 \<rparr> DEFAULT_ZOOM
             (Some (getCenterDisposition newPos s1)) s1) =
      \<lparr> pos_x = pos_x (transformBase s) +
                 (pos_x (getCenterDisposition newPos s1) - pos_x (transformBase s)) * (Num 1 - Num 2),
        pos_y = pos_y (transformBase s) +
                 (pos_y (getCenterDisposition newPos s1) - pos_y (transformBase s)) * (Num 1 - Num 2) \<rparr>"
    by (simp add: doChangeScale_def Let_def DEFAULT_ZOOM_def positionMult_def s1_def)
  have g: "\<not> childDoingZoom s \<and> scaleTarget s = Num 1 \<and>
        transformBase s = \<lparr> pos_x = Num 0, pos_y = Num 0 \<rparr> \<and>
        viewPort s = \<lparr> width = Num w, height = Num h \<rparr> \<and>
        pos_x newPos = Num tx \<and> 0 \<le> tx \<and> tx \<le> w \<and>
        pos_y newPos = Num ty \<and> 0 \<le> ty \<and> ty \<le> h \<longrightarrow>
          scaleTarget (onStartTouchResponder event s) = Num 2 \<and>
          transformBase (onStartTouchResponder event s) =
            positionMult (getCenterDisposition newPos s1) (Num 1 - Num 2)"
  proof (intro impI)
    assume i: "\<not> childDoingZoom s \<and> scaleTarget s = Num 1 \<and>
        transformBase s = \<lparr> pos_x = Num 0, pos_y = Num 0 \<rparr> \<and>
        viewPort s = \<lparr> width = Num w, height = Num h \<rparr> \<and>
        pos_x newPos = Num tx \<and> 0 \<le> tx \<and> tx \<le> w \<and>
        pos_y newPos = Num ty \<and> 0 \<le> ty \<and> ty \<le> h"
    then have i1: "\<not> childDoingZoom s1" "scaleTarget s1 = Num 1"
      "transformBase s1 = \<lparr> pos_x = Num 0, pos_y = Num 0 \<rparr>"
      "viewPort s1 = \<lparr> width = Num w, height = Num h \<rparr>"
      by (simp_all add: s1_def)
    from i have i2: "pos_x newPos = Num tx" "0 \<le> tx" "tx \<le> w"
      and i3: "pos_y newPos = Num ty" "0 \<le> ty" "ty \<le> h"
      by simp_all
    show "scaleTarget (onStartTouchResponder event s) = Num 2 \<and>
          transformBase (onStartTouchResponder event s) =
            positionMult (getCenterDisposition newPos s1) (Num 1 - Num 2)"
      unfolding run
      using double_tap_from_identity[OF i1 i2 i3] by simp
  qed
  show "let newPos = \<lparr> pos_x = pageX event - pos_x (absolutePosition s),
                    pos_y = pageY event - pos_y (absolutePosition s) \<rparr>;
        s1 = s\<lparr>childState := (childState s)\<lparr>lastTouch := Num 0\<rparr>\<rparr>;
        c = getCenterDisposition newPos s1;
        s2 = doChangeScale \<lparr> pos_x = Num 0, pos_y = Num 0 \<rparr> DEFAULT_ZOOM (Some c) s1
    in lastTouch (childState (onStartTouchResponder event s)) = Num 0 \<and>
       gesture (childState (onStartTouchResponder event s)) = gesture (childState s) \<and>
       (childDoingZoom s \<longrightarrow>
          onStartTouchResponder event s = doChildReset SOFT_ANIMIATION_TIME s1) \<and>
       (\<not> childDoingZoom s \<longrightarrow>
          onStartTouchResponder event s =
            doChildAnimation SOFT_ANIMIATION_TIME EmptyCallback True s2 \<and>
          scaleTarget s2 = scaleTarget s * Num 2 \<and>
          transformBase s2 =
            \<lparr> pos_x = pos_x (transformBase s) + (pos_x c - pos_x (transformBase s)) * (Num 1 - Num 2),
              pos_y = pos_y (transformBase s) + (pos_y c - pos_y (transformBase s)) * (Num 1 - Num 2) \<rparr>) \<and>
       (\<not> childDoingZoom s \<and> scaleTarget s = Num 1 \<and>
        transformBase s = \<lparr> pos_x = Num 0, pos_y = Num 0 \<rparr> \<and>
        viewPort s = \<lparr> width = Num w, height = Num h \<rparr> \<and>
        pos_x newPos = Num tx \<and> 0 \<le> tx \<and> tx \<le> w \<and>
        pos_y newPos = Num ty \<and> 0 \<le> ty \<and> ty \<le> h \<longrightarrow>
          scaleTarget (onStartTouchResponder event s) = Num 2 \<and>
          transformBase (onStartTouchResponder event s) = positionMult c (Num 1 - Num 2))"
    unfolding Let_def newPos_def[symmetric] s1_def[symmetric]
    using a b c d e f g by blast
next
  show "scaleTarget (onStartTouchResponder (tap 2100 200 150) tapped_once) = Num 2"
    by (simp add: tapped_once_value run_defs)
  show "transformBase (onStartTouchResponder (tap 2100 200 150) tapped_once) =
     \<lparr> pos_x = Num (- 50), pos_y = Num 0 \<rparr>"
    by (simp add: tapped_once_value run_defs)
qed

theorem onStartTouchResponder_double_tap_witness:
  "timeStamp (tap 2100 200 150) - lastTouch (childState tapped_once) < DOUBLE_TOUCH_THRES \<and>
   status (gesture (childState tapped_once)) \<noteq> SINGLE \<and>
   \<not> childDoingZoom tapped_once \<and> scaleTarget tapped_once = Num 1 \<and>
   transformBase tapped_once = \<lparr> pos_x = Num 0, pos_y = Num 0 \<rparr> \<and>
   viewPort tapped_once = \<lparr> width = Num 300, height = Num 300 \<rparr> \<and>
   lastTouch (childState (onStartTouchResponder (tap 2100 200 150) tapped_once)) = Num 0 \<and>
   gesture (childState (onStartTouchResponder (tap 2100 200 150) tapped_once)) = Other \<and>
   scaleTarget (onStartTouchResponder (tap 2100 200 150) tapped_once) = Num 2 \<and>
   transformBase (onStartTouchResponder (tap 2100 200 150) tapped_once) =
     \<lparr> pos_x = Num (- 50), pos_y = Num 0 \<rparr> \<and>
   timeStamp (tap 1200 200 150) - lastTouch (childState second_reset) < DOUBLE_TOUCH_THRES \<and>
   status (gesture (childState second_reset)) \<noteq> SINGLE \<and>
   childDoingZoom second_reset \<and>
   lastTouch (childState (onStartTouchResponder (tap 1200 200 150) second_reset)) = Num 0 \<and>
   onStartTouchResponder (tap 1200 200 150) second_reset =
     doChildReset SOFT_ANIMIATION_TIME
       (second_reset\<lparr>childState := \<lparr> gesture = Other, lastTouch = Num 0 \<rparr>\<rparr>) \<and>
   scaleTarget (onStartTouchResponder (tap 1200 200 150) second_reset) = Num 1"
  using onStartTouchResponder_double_tap
      [where event = "tap 2100 200 150" and s = tapped_once and w = 300 and h = 300
         and tx = 200 and ty = 150]
    onStartTouchResponder_double_tap
      [where event = "tap 1200 200 150" and s = second_reset]
  by (simp add: tapped_once_value second_reset_value run_defs)

section \<open>The state change and the responder callbacks\<close>

lemma doChildStateChange_childState:
  "childState (doChildStateChange to s) = to"
  by (simp add: doChildStateChange_def Let_def)

lemma doChildStateChange_not_double:
  "status (gesture to) \<noteq> DOUBLE \<Longrightarrow> doChildStateChange to s = s\<lparr>childState := to\<rparr>"
  by (simp add: doChildStateChange_def Let_def)

text \<open>
  C6, evaluated where it fails. The first pinch has settled at target scale 1.2, which
  lies strictly between \<^verbatim>\<open>MIN_ZOOM_RESET\<close> and \<^verbatim>\<open>MAX_ZOOM_RESET\<close>. The release
  callback sets the gesture state to \<^verbatim>\<open>OTHER\<close> and starts the reset to the identity
  over 300 ms. The terminate and the reject callback set the gesture state to
  \<^verbatim>\<open>OTHER\<close> and do nothing else, in this state as in every other: the target
  scale stays 1.2 and no animation is started.
\<close>

theorem terminate_and_reject_do_not_reset:
  "onResponderTerminate event s = s\<lparr>childState := (childState s)\<lparr>gesture := Other\<rparr>\<rparr> \<and>
   onResponderReject event s = s\<lparr>childState := (childState s)\<lparr>gesture := Other\<rparr>\<rparr> \<and>
   MIN_ZOOM_RESET < scaleTarget pinch_settled \<and> scaleTarget pinch_settled < MAX_ZOOM_RESET \<and>
   gesture (childState (onResponderRelease (lifted 1030 138 150) pinch_settled)) = Other \<and>
   scaleTarget (onResponderRelease (lifted 1030 138 150) pinch_settled) = Num 1 \<and>
   effects (onResponderRelease (lifted 1030 138 150) pinch_settled) =
     effects pinch_settled @
       [StopAnimation,
        StartAnimation (Num 300) (Num 1) \<lparr>pos_x = Num 0, pos_y = Num 0\<rparr> ResetCallback] \<and>
   gesture (childState (onResponderTerminate (lifted 1030 138 150) pinch_settled)) = Other \<and>
   scaleTarget (onResponderTerminate (lifted 1030 138 150) pinch_settled) = Num (6 / 5) \<and>
   effects (onResponderTerminate (lifted 1030 138 150) pinch_settled) = effects pinch_settled \<and>
   gesture (childState (onResponderReject (lifted 1030 138 150) pinch_settled)) = Other \<and>
   scaleTarget (onResponderReject (lifted 1030 138 150) pinch_settled) = Num (6 / 5) \<and>
   effects (onResponderReject (lifted 1030 138 150) pinch_settled) = effects pinch_settled"
proof -
  have "onResponderTerminate event s = s\<lparr>childState := (childState s)\<lparr>gesture := Other\<rparr>\<rparr>"
    and "onResponderReject event s = s\<lparr>childState := (childState s)\<lparr>gesture := Other\<rparr>\<rparr>"
    by (simp_all add: onResponderTerminate_def onResponderReject_def
        doChildStateChange_not_double)
  then show ?thesis
    by (simp add: pinch_settled_value run_defs)
qed

section \<open>The negotiation predicates\<close>

text \<open>
  C7 does not hold as stated, because of the start predicate. On the fresh gallery an
  event with two touches is answered with false, and an event with one touch leaves a
  state that differs from the one before: the time stamp of the touch is recorded in
  \<^verbatim>\<open>lastTouch\<close>.
\<close>

theorem onStartShouldSetResponder_not_pure:
  "\<not> childDoingZoom gallery \<and>
   length (touches (two_fingers 1000 140 150 160 150)) > 1 \<and>
   fst (onStartShouldSetResponder (two_fingers 1000 140 150 160 150) gallery) = False \<and>
   snd (onStartShouldSetResponder (tap 2000 200 150) gallery) \<noteq> gallery \<and>
   lastTouch (childState gallery) = Num 0 \<and>
   lastTouch (childState (snd (onStartShouldSetResponder (tap 2000 200 150) gallery))) = Num 2000"
  by (simp add: gallery_value run_defs)

text \<open>
  C7, amended. The move, termination-request, start-capture and move-capture predicates
  answer true exactly when zoom is in progress or the event carries more than one touch,
  the termination request answering the negation, and they leave the whole state as it
  is. The start predicate answers with the zoom flag as it is on entry, whatever the
  number of touches, and it is not pure: when zoom is not in progress and the event
  carries exactly one touch it first runs the touch-start handling, and in every case it
  sets the gesture state to \<^verbatim>\<open>OTHER\<close>; when zoom is in progress or the event does
  not carry exactly one touch that is its only effect.
\<close>

theorem negotiation_predicates:
  "onMoveShouldSetResponder event s = (childDoingZoom s \<or> length (touches event) > 1, s) \<and>
   onResponderTerminationRequest event s =
     (\<not> (childDoingZoom s \<or> length (touches event) > 1), s) \<and>
   onStartShouldSetResponderCapture event s =
     (childDoingZoom s \<or> length (touches event) > 1, s) \<and>
   onMoveShouldSetResponderCapture event s =
     (childDoingZoom s \<or> length (touches event) > 1, s) \<and>
   fst (onStartShouldSetResponder event s) = childDoingZoom s \<and>
   gesture (childState (snd (onStartShouldSetResponder event s))) = Other \<and>
   (childDoingZoom s \<or> length (touches event) \<noteq> 1 \<longrightarrow>
      snd (onStartShouldSetResponder event s) =
        s\<lparr>childState := (childState s)\<lparr>gesture := Other\<rparr>\<rparr>) \<and>
   (\<not> childDoingZoom s \<and> length (touches event) = 1 \<longrightarrow>
      snd (onStartShouldSetResponder event s) =
        (onStartTouchResponder event s)
          \<lparr>childState := (childState (onStartTouchResponder event s))\<lparr>gesture := Other\<rparr>\<rparr>)"
  by (auto simp: onMoveShouldSetResponder_def onResponderTerminationRequest_def
      onStartShouldSetResponderCapture_def onMoveShouldSetResponderCapture_def
      onStartShouldSetResponder_def Let_def doChildStateChange_not_double
      doChildStateChange_childState)

theorem negotiation_predicates_witness:
  "\<not> childDoingZoom gallery \<and> length (touches (two_fingers 1000 140 150 160 150)) \<noteq> 1 \<and>
   onMoveShouldSetResponder (two_fingers 1000 140 150 160 150) gallery = (True, gallery) \<and>
   onResponderTerminationRequest (two_fingers 1000 140 150 160 150) gallery = (False, gallery) \<and>
   onStartShouldSetResponder (two_fingers 1000 140 150 160 150) gallery = (False, gallery) \<and>
   length (touches (tap 2000 200 150)) = 1 \<and>
   onMoveShouldSetResponder (tap 2000 200 150) gallery = (False, gallery) \<and>
   onStartShouldSetResponder (tap 2000 200 150) gallery =
     (False, gallery\<lparr>childState := \<lparr>gesture = Other, lastTouch = Num 2000\<rparr>\<rparr>) \<and>
   childDoingZoom pinch_settled \<and>
   onStartShouldSetResponder (tap 2000 200 150) pinch_settled =
     (True, pinch_settled\<lparr>childState := \<lparr>gesture = Other, lastTouch = Num 0\<rparr>\<rparr>)"
  using negotiation_predicates [of "two_fingers 1000 140 150 160 150" gallery]
    negotiation_predicates [of "tap 2000 200 150" gallery]
    negotiation_predicates [of "tap 2000 200 150" pinch_settled]
  by (simp add: gallery_value pinch_settled_value run_defs prod_eq_iff)

section \<open>The time stamp of the last touch\<close>

text \<open>
  C8, evaluated where it fails. A finger is down: the gesture state is \<^verbatim>\<open>SINGLE\<close>
  and \<^verbatim>\<open>lastTouch\<close> is the time stamp 1100 of the touch. The state changes to
  \<^verbatim>\<open>OTHER\<close>, through \<^verbatim>\<open>doChildStateChange\<close> called as the release callback and
  the default branch of \<^verbatim>\<open>onMoveTouchResponder\<close> call it, with a spread of the
  current state. The tag changes and the new tag is not \<^verbatim>\<open>SINGLE\<close>, and the state
  held afterwards still has \<^verbatim>\<open>lastTouch\<close> 1100: the 0 is written to the object that
  the last statement replaces. So it is for every state and every new gesture that a
  caller puts into a spread of the current state.
\<close>

theorem lastTouch_survives_state_change:
  "lastTouch (childState (doChildStateChange ((childState s)\<lparr>gesture := g\<rparr>) s)) =
     lastTouch (childState s) \<and>
   status (gesture (childState touched_during_reset)) = SINGLE \<and>
   lastTouch (childState touched_during_reset) = Num 1100 \<and>
   status (gesture (childState
     (doChildStateChange ((childState touched_during_reset)\<lparr>gesture := Other\<rparr>)
        touched_during_reset))) = OTHER \<and>
   lastTouch (childState
     (doChildStateChange ((childState touched_during_reset)\<lparr>gesture := Other\<rparr>)
        touched_during_reset)) = Num 1100 \<and>
   status (gesture (childState
     (onMoveTouchResponder (lifted 1120 200 150) touched_during_reset))) = OTHER \<and>
   lastTouch (childState
     (onMoveTouchResponder (lifted 1120 200 150) touched_during_reset)) = Num 1100 \<and>
   status (gesture (childState second_reset)) = OTHER \<and>
   lastTouch (childState second_reset) = Num 1100"
proof -
  have "lastTouch (childState (doChildStateChange ((childState s)\<lparr>gesture := g\<rparr>) s)) =
     lastTouch (childState s)"
    by (simp add: doChildStateChange_childState)
  then show ?thesis
    by (simp add: touched_during_reset_value second_reset_value run_defs)
qed

section \<open>The completion of a superseded animation\<close>





lemma runs_complete_the_animation_in_flight:
  "inFlight pinch_moved = Some EmptyCallback"
  "inFlight second_pinch_moved = Some ResetCallback"
  "inFlight pinch_settled = None"
  "inFlight reset_completed = None"
  by (simp_all add: pinch_moved_value second_pinch_moved_value pinch_settled_value
      reset_completed_value inFlight_def)




end
